theory Spec2Isabelle
  imports Main
begin

section \<open>JavaScript values\<close>

text \<open>
  Strings are lists of code units; the payloads, tokens and fixed texts of the program
  are ASCII, where one \<^typ>\<open>char\<close> is one code unit and \<open>length\<close> is JavaScript's
  \<open>.length\<close>. A value of type \<open>string | undefined | null\<close> is a \<^typ>\<open>string option\<close>.
\<close>

abbreviation nl :: string where
  "nl \<equiv> [CHR 0x0A]"

text \<open>Truthiness of \<open>string | undefined\<close>: undefined and the empty string are falsy.\<close>

definition truthy :: "string option \<Rightarrow> bool" where
  "truthy v = (case v of None \<Rightarrow> False | Some s \<Rightarrow> s \<noteq> [])"

text \<open>\<open>a || b\<close> on strings.\<close>

definition or_else :: "string option \<Rightarrow> string \<Rightarrow> string" where
  "or_else a b = (case a of None \<Rightarrow> b | Some s \<Rightarrow> if s = [] then b else s)"

text \<open>
  \<open>String.prototype.split(sep)\<close> for a one-character separator: the string is cut at
  every occurrence of the separator; the result is never empty.
\<close>

fun split_on :: "char \<Rightarrow> string \<Rightarrow> string list" where
  "split_on c [] = [[]]"
| "split_on c (x # xs) =
     (if x = c then [] # split_on c xs
      else (case split_on c xs of
              [] \<Rightarrow> [[x]]
            | p # ps \<Rightarrow> (x # p) # ps))"

text \<open>\<open>split(sep, limit)\<close>: the pieces of \<open>split(sep)\<close>, truncated to the first \<open>limit\<close>.\<close>

definition split_limit :: "char \<Rightarrow> nat \<Rightarrow> string \<Rightarrow> string list" where
  "split_limit c n s = take n (split_on c s)"

section \<open>Errors thrown by the transport\<close>

text \<open>
  \<open>GrammyError\<close> carries its message, the \<open>error_code\<close> and \<open>parameters.retry_after\<close>
  (seconds, optional). \<open>NonError\<close> is a thrown value that is not an instance of \<open>Error\<close>.
\<close>

datatype error =
    GrammyError string nat "nat option"
  | HttpError string
  | Error string
  | NonError

fun error_message :: "error \<Rightarrow> string" where
  "error_message (GrammyError m c r) = m"
| "error_message (HttpError m) = m"
| "error_message (Error m) = m"
| "error_message NonError = []"

text \<open>\<open>e instanceof Error ? e.message : 'Unknown error'\<close>\<close>

fun describeError :: "error \<Rightarrow> string" where
  "describeError NonError = ''Unknown error''"
| "describeError e = error_message e"

section \<open>Delivery dispatcher: sendMessageWithRetry (utils.ts)\<close>

text \<open>
  The guard of line 39,
  \<open>error instanceof GrammyError && error.error_code === 429 && error.parameters.retry_after\<close>:
  it holds for a 429 whose \<open>retry_after\<close> is present and non-zero, and then yields that
  number of seconds.
\<close>

fun rateLimitRetryAfter :: "error \<Rightarrow> nat option" where
  "rateLimitRetryAfter (GrammyError m c (Some r)) = (if c = 429 \<and> r \<noteq> 0 then Some r else None)"
| "rateLimitRetryAfter e = None"

text \<open>
  One entry per call of \<open>delay(waitTime)\<close> (line 43): the value of \<open>currentDelay\<close> at that
  moment and the \<open>waitTime\<close> passed to \<open>delay\<close>, both in milliseconds.
\<close>

record wait_event =
  backoff :: nat
  waitTime :: nat

text \<open>
  The local variables of the loop. \<open>attempts\<close> also counts the calls of \<open>api.sendMessage\<close>
  made so far: every call that throws increments it, and a call that returns ends the
  function.
\<close>

record retry_state =
  attempts :: nat
  currentDelay :: nat
  waited :: "wait_event list"

definition exhaustedError :: error where
  "exhaustedError = Error ''[SendMessageRetry] Failed to send message after exhausting retries.''"

text \<open>
  The \<open>while\<close> loop of lines 33 to 53. The transport is the function \<open>api\<close>: the outcome
  of the \<open>n\<close>-th call of \<open>api.sendMessage\<close> (counted from 0), \<open>None\<close> when it returns and
  \<open>Some e\<close> when it throws \<open>e\<close>. The result is \<open>Inr ()\<close> on return and \<open>Inl e\<close> when the
  function throws \<open>e\<close>.
\<close>

function sendLoop :: "(nat \<Rightarrow> error option) \<Rightarrow> nat \<Rightarrow> retry_state \<Rightarrow> (error + unit) \<times> retry_state" where
  "sendLoop api maxRetries s =
     (if attempts s < maxRetries then
        (case api (attempts s) of
           None \<Rightarrow> (Inr (), s)
         | Some e \<Rightarrow>
             (let s1 = s\<lparr>attempts := attempts s + 1\<rparr> in
              (case rateLimitRetryAfter e of
                 Some retry_after \<Rightarrow>
                   (let retryAfter = retry_after * 1000;
                        w = max retryAfter (currentDelay s1)
                    in sendLoop api maxRetries
                         (s1\<lparr>waited := waited s1 @ [\<lparr>backoff = currentDelay s1, waitTime = w\<rparr>],
                             currentDelay := currentDelay s1 * 2\<rparr>))
               | None \<Rightarrow>
                   (if attempts s1 \<ge> maxRetries then (Inl e, s1) else (Inl e, s1)))))
      else (Inl exhaustedError, s))"
  by pat_completeness auto
termination
  by (relation "measure (\<lambda>(api, maxRetries, s). maxRetries - attempts s)") auto

text \<open>
  The function itself, with its default parameters \<open>maxRetries = 3\<close> and
  \<open>initialDelay = 1000\<close>: an argument left out is \<open>None\<close>.
\<close>

definition sendMessageWithRetry ::
  "(nat \<Rightarrow> error option) \<Rightarrow> nat option \<Rightarrow> nat option \<Rightarrow> (error + unit) \<times> retry_state" where
  "sendMessageWithRetry api maxRetries initialDelay =
     sendLoop api (case maxRetries of None \<Rightarrow> 3 | Some m \<Rightarrow> m)
       \<lparr>attempts = 0,
        currentDelay = (case initialDelay of None \<Rightarrow> 1000 | Some d \<Rightarrow> d),
        waited = []\<rparr>"

text \<open>
  The waits of the first \<open>k\<close> rounds, when round \<open>i\<close> was rate limited with
  \<open>retry_after = ras i\<close> seconds and the backoff started at \<open>d\<close> milliseconds.
\<close>

definition backoffRounds :: "nat \<Rightarrow> (nat \<Rightarrow> nat) \<Rightarrow> nat \<Rightarrow> wait_event list" where
  "backoffRounds d ras k =
     map (\<lambda>i. \<lparr>backoff = d * 2 ^ i, waitTime = max (ras i * 1000) (d * 2 ^ i)\<rparr>) [0..<k]"

declare sendLoop.simps [simp del]

section \<open>Keyboards (keyboards.ts)\<close>

text \<open>
  A button is its label and its \<open>callback_data\<close>; an inline keyboard is a list of rows.
  \<open>new InlineKeyboard()\<close> is the keyboard of one empty row, \<open>[[]]\<close>.
  The emoji that starts each label in the source is outside ASCII and is left out of the
  label; no branch of the program reads a label.
\<close>

type_synonym button = "string \<times> string"
type_synonym inline_keyboard = "button list list"

definition createMainKeyboard :: "string \<Rightarrow> inline_keyboard" where
  "createMainKeyboard messageStoreId =
     [[(''Send to GPT'', ''gpt:'' @ messageStoreId)],
      [(''Send to News Channel'', ''chn:'' @ messageStoreId)],
      [(''New Prompt'', ''prm:'' @ messageStoreId)]]"

definition createGptModelKeyboard :: inline_keyboard where
  "createGptModelKeyboard =
     [[(''GPT-4o'', ''gpt:4o''), (''GPT-3.5 Turbo'', ''gpt:3.5t'')],
      [(''Cancel'', ''gpt:cancel'')]]"

definition createCancelKeyboard :: "string \<Rightarrow> inline_keyboard" where
  "createCancelKeyboard messageStoreId = [[(''Cancel New Prompt'', ''cnp:'' @ messageStoreId)]]"

section \<open>Storage (storage.ts) and the world the handlers run in\<close>

record MessageData =
  messageId :: string
  originalMessageText :: string
  keyboard :: "inline_keyboard option"
  cancelButton :: "button list option"
  scrapedMessageContent :: "string option"
  gptGeneratedContent :: "string option"

record NewsArticle =
  title :: string
  link :: string
  summary :: string
  fullFormattedMessage :: string
  linkOnlyMessage :: string

record SessionData =
  currentGptModel :: string
  messageStoreIdForNewPrompt :: "string option"

record config =
  editorsGroupId :: int
  newsChannelId :: int
  allowedUserIds :: "int list"
  listenerUserId :: "int option"
  defaultModel :: string
  readyPrompt :: string
  homeUrl :: string

text \<open>
  Every interaction of the program with its environment, in the order it happens:
  the calls of the chat transport (\<open>ctx.answerCallbackQuery\<close>, \<open>ctx.editMessageText\<close>,
  \<open>ctx.editMessageReplyMarkup\<close>, \<open>ctx.reply\<close>, \<open>api.sendMessage(chat, text, parse_mode,
  reply_markup)\<close>, \<open>api.editMessageText(chat, message, text)\<close>,
  \<open>api.editMessageReplyMarkup(chat, message, markup)\<close>), of the conversation plugin, of
  \<open>generateGptSummary(content, prompt, model)\<close>, of \<open>uuidv4\<close>, of \<open>axios.get\<close> on the home
  page, of \<open>scrapeArticleContent(url)\<close>, the detached start of \<open>runScraper\<close>, the pause
  between two articles, and the lookups \<open>getMessageData(id)\<close> of the context store.
\<close>

datatype api_call =
    AnswerCallbackQuery "string option" bool
  | EditMessageText string "inline_keyboard option"
  | EditMessageReplyMarkup inline_keyboard
  | Reply string "inline_keyboard option"
  | SendMessage int string "string option" "inline_keyboard option"
  | ApiEditMessageText int int string
  | ApiEditMessageReplyMarkup int int inline_keyboard
  | ConversationEnter string
  | ConversationExit
  | GenerateGptSummary string string string
  | Uuidv4
  | HttpGet string
  | ScrapeArticleContent string
  | RunScraper
  | Sleep nat
  | GetMessageData string

text \<open>An entry of the trace: the call, and whether it returned (\<open>True\<close>) or threw.\<close>

type_synonym event = "api_call \<times> bool"

text \<open>
  The module-level state (\<open>messageStore\<close>, \<open>newsList\<close>), the session of the chat the
  update belongs to, and the trace of interactions so far.
\<close>

record world =
  messageStore :: "string \<rightharpoonup> MessageData"
  newsList :: "string set"
  session :: SessionData
  trace :: "event list"

text \<open>An element \<open>article.type-post\<close> of the home page: the trimmed text and the \<open>href\<close> of its title link.\<close>

record article_element =
  el_title :: string
  el_href :: "string option"

text \<open>
  The environment answers the interaction that stands at position \<open>k\<close> of the trace:
  whether it throws, what the language model returns, what the article page yields,
  which identifier \<open>uuidv4\<close> draws, and the status and article elements of the home page.
\<close>

record env =
  throws :: "nat \<Rightarrow> error option"
  gptAnswer :: "nat \<Rightarrow> string option"
  scraped :: "nat \<Rightarrow> string option"
  uuid :: "nat \<Rightarrow> string"
  httpHome :: "nat \<Rightarrow> nat \<times> article_element list"

text \<open>
  An asynchronous function: from a world to its result (\<open>Inl e\<close> when it throws \<open>e\<close>) and
  the world it leaves.
\<close>

type_synonym 'a io = "world \<Rightarrow> (error + 'a) \<times> world"

definition ret :: "'a \<Rightarrow> 'a io" where
  "ret a w = (Inr a, w)"

definition bindE :: "'a io \<Rightarrow> ('a \<Rightarrow> 'b io) \<Rightarrow> 'b io" where
  "bindE m f w = (case m w of (Inl e, w') \<Rightarrow> (Inl e, w') | (Inr a, w') \<Rightarrow> f a w')"

text \<open>Statements in sequence: the first that throws ends the sequence.\<close>

fun seqE :: "unit io list \<Rightarrow> unit io" where
  "seqE [] = ret ()"
| "seqE (m # ms) = bindE m (\<lambda>_. seqE ms)"

text \<open>\<open>try { m } catch (e) { h e }\<close>\<close>

definition tryCatch :: "'a io \<Rightarrow> (error \<Rightarrow> 'a io) \<Rightarrow> 'a io" where
  "tryCatch m h w = (case m w of (Inl e, w') \<Rightarrow> h e w' | (Inr a, w') \<Rightarrow> (Inr a, w'))"

definition modify :: "(world \<Rightarrow> world) \<Rightarrow> unit io" where
  "modify f w = (Inr (), f w)"

text \<open>An awaited call of the transport: it is recorded, and throws when the environment says so.\<close>

definition call :: "env \<Rightarrow> api_call \<Rightarrow> unit io" where
  "call E c w =
     (case throws E (length (trace w)) of
        None \<Rightarrow> (Inr (), w\<lparr>trace := trace w @ [(c, True)]\<rparr>)
      | Some e \<Rightarrow> (Inl e, w\<lparr>trace := trace w @ [(c, False)]\<rparr>))"

text \<open>An interaction that cannot throw into the caller.\<close>

definition note_call :: "api_call \<Rightarrow> unit io" where
  "note_call c w = (Inr (), w\<lparr>trace := trace w @ [(c, True)]\<rparr>)"

text \<open>\<open>generateGptSummary\<close> catches every error of the model call and returns null.\<close>

definition generateGptSummary :: "env \<Rightarrow> string \<Rightarrow> string \<Rightarrow> string \<Rightarrow> string option io" where
  "generateGptSummary E content prompt model w =
     (Inr (gptAnswer E (length (trace w))),
      w\<lparr>trace := trace w @ [(GenerateGptSummary content prompt model, True)]\<rparr>)"

definition uuidv4 :: "env \<Rightarrow> string io" where
  "uuidv4 E w = (Inr (uuid E (length (trace w))), w\<lparr>trace := trace w @ [(Uuidv4, True)]\<rparr>)"

definition storeMessageData :: "string \<Rightarrow> MessageData \<Rightarrow> world \<Rightarrow> world" where
  "storeMessageData i d w = w\<lparr>messageStore := (messageStore w)(i \<mapsto> d)\<rparr>"

definition getMessageData :: "string \<Rightarrow> MessageData option io" where
  "getMessageData i w = (Inr (messageStore w i), w\<lparr>trace := trace w @ [(GetMessageData i, True)]\<rparr>)"

definition deleteMessageData :: "string \<Rightarrow> world \<Rightarrow> world" where
  "deleteMessageData i w = w\<lparr>messageStore := (messageStore w)(i := None)\<rparr>"

definition addSentNews :: "NewsArticle \<Rightarrow> world \<Rightarrow> world" where
  "addSentNews news w = w\<lparr>newsList := insert (fullFormattedMessage news) (newsList w)\<rparr>"

definition hasNewsBeenSent :: "NewsArticle \<Rightarrow> world \<Rightarrow> bool" where
  "hasNewsBeenSent news w = (fullFormattedMessage news \<in> newsList w)"

section \<open>The callback router: buttonClickHandler (handlers.ts)\<close>

record callback_query =
  cq_id :: string
  cq_data :: "string option"
  cq_message_id :: "int option"

record update_ctx =
  callbackQuery :: "callback_query option"
  fromId :: "int option"

definition isUserAuthorized :: "config \<Rightarrow> update_ctx \<Rightarrow> bool" where
  "isUserAuthorized cfg ctx =
     (case fromId ctx of
        None \<Rightarrow> False
      | Some u \<Rightarrow> u \<in> set (allowedUserIds cfg) \<or>
                  (case listenerUserId cfg of None \<Rightarrow> False | Some l \<Rightarrow> u = l))"

definition sendActionPrompt :: "env \<Rightarrow> config \<Rightarrow> string \<Rightarrow> string option \<Rightarrow> unit io" where
  "sendActionPrompt E cfg text scrapedContent =
     bindE (uuidv4 E) (\<lambda>messageStoreId.
       let kb = createMainKeyboard messageStoreId;
           cancelKeyboard = createCancelKeyboard messageStoreId
       in seqE
         [modify (storeMessageData messageStoreId
            \<lparr>messageId = messageStoreId,
             originalMessageText = text,
             keyboard = Some kb,
             cancelButton = (case cancelKeyboard of [] \<Rightarrow> None | r # _ \<Rightarrow> Some r),
             scrapedMessageContent = scrapedContent,
             gptGeneratedContent = None\<rparr>),
          tryCatch
            (seqE
              [call E (SendMessage (editorsGroupId cfg) text (Some ''Markdown'') None),
               call E (SendMessage (editorsGroupId cfg) ''Choose an option:'' None (Some kb))])
            (\<lambda>error.
               tryCatch
                 (call E (SendMessage (editorsGroupId cfg) ''Choose an option:'' None (Some kb)))
                 (\<lambda>error2. ret ()))])"

text \<open>
  Lines 409 to 411: \<open>parts = callbackData.split(':', 2)\<close>, \<open>queryPrefix = parts[0]\<close>,
  \<open>dataPart = parts.length > 1 ? parts[1] : undefined\<close>.
\<close>

definition parseCallbackData :: "string \<Rightarrow> string \<times> string option" where
  "parseCallbackData callbackData =
     (case split_limit CHR '':'' 2 callbackData of
        [] \<Rightarrow> ([], None)
      | [p] \<Rightarrow> (p, None)
      | p # d # _ \<Rightarrow> (p, Some d))"

text \<open>Lines 416 to 436: the model selection.\<close>

definition modelSelection :: "env \<Rightarrow> string \<Rightarrow> unit io" where
  "modelSelection E sel =
     (if sel = ''4o'' then
        seqE [call E (AnswerCallbackQuery (Some ''Model set to GPT-4o'') False),
              modify (\<lambda>w. w\<lparr>session := (session w)\<lparr>currentGptModel := ''gpt-4o''\<rparr>\<rparr>),
              call E (EditMessageText ''Default OpenAI model set to GPT-4o.'' (Some [[]]))]
      else if sel = ''3.5t'' then
        seqE [call E (AnswerCallbackQuery (Some ''Model set to GPT-3.5 Turbo'') False),
              modify (\<lambda>w. w\<lparr>session := (session w)\<lparr>currentGptModel := ''gpt-3.5-turbo''\<rparr>\<rparr>),
              call E (EditMessageText ''Default OpenAI model set to GPT-3.5 Turbo.'' (Some [[]]))]
      else
        seqE [call E (AnswerCallbackQuery (Some ''Cancelled'') False),
              call E (EditMessageText ''GPT model selection cancelled.'' (Some [[]]))])"

text \<open>Lines 483 to 541: the \<open>switch\<close> over the prefix, for a context that was found.\<close>

definition processAction ::
  "env \<Rightarrow> config \<Rightarrow> string \<Rightarrow> string \<Rightarrow> MessageData \<Rightarrow> unit io" where
  "processAction E cfg queryPrefix messageStoreId messageData =
     (if queryPrefix = ''gpt'' then
        bindE (call E (AnswerCallbackQuery (Some ''Processing with GPT...'') False)) (\<lambda>_ w.
          (let contentToSend = or_else (scrapedMessageContent messageData) (originalMessageText messageData);
               gptModel = or_else (Some (currentGptModel (session w))) (defaultModel cfg)
           in bindE (generateGptSummary E contentToSend (readyPrompt cfg) gptModel) (\<lambda>gptResult.
                case gptResult of
                  None \<Rightarrow> call E (SendMessage (editorsGroupId cfg)
                                    ''Sorry, failed to get a response from OpenAI.'' None None)
                | Some r \<Rightarrow>
                    if r = [] then
                      call E (SendMessage (editorsGroupId cfg)
                                ''Sorry, failed to get a response from OpenAI.'' None None)
                    else
                      seqE
                        [modify (storeMessageData messageStoreId
                                   (messageData\<lparr>gptGeneratedContent := Some r\<rparr>)),
                         call E (SendMessage (editorsGroupId cfg) ''GPT Summary Generated:'' None None),
                         sendActionPrompt E cfg r None,
                         call E (EditMessageText
                                   ''Original message processed by GPT. Summary posted below.''
                                   (Some [[]]))])) w)
      else if queryPrefix = ''chn'' then
        seqE
          [call E (AnswerCallbackQuery (Some ''Sending to news channel...'') False),
           (let textToSend = or_else (gptGeneratedContent messageData) (originalMessageText messageData)
            in tryCatch
                 (seqE
                   [call E (SendMessage (newsChannelId cfg) textToSend (Some ''Markdown'') None),
                    call E (EditMessageText ''Sent to news channel!'' (Some [[]])),
                    modify (deleteMessageData messageStoreId)])
                 (\<lambda>sendError.
                    call E (SendMessage (editorsGroupId cfg)
                              (''Failed to send message to the news channel. Error: ''
                                 @ describeError sendError) None None)))]
      else if queryPrefix = ''prm'' then
        seqE
          [call E (AnswerCallbackQuery None False),
           modify (\<lambda>w. w\<lparr>session := (session w)\<lparr>messageStoreIdForNewPrompt := Some messageStoreId\<rparr>\<rparr>),
           call E (EditMessageText ''Please reply with your custom prompt for GPT.''
                     (Some (createCancelKeyboard messageStoreId))),
           call E (ConversationEnter ''newPromptConversation'')]
      else if queryPrefix = ''cnp'' then
        seqE
          [call E (AnswerCallbackQuery (Some ''Cancelled'') False),
           (case keyboard messageData of
              Some kb \<Rightarrow>
                call E (EditMessageText
                          (or_else (Some (originalMessageText messageData)) ''Choose an option:'')
                          (Some kb))
            | None \<Rightarrow> call E (EditMessageText ''New prompt cancelled.'' (Some [[]]))),
           tryCatch (call E ConversationExit) (\<lambda>_. ret ())]
      else
        call E (AnswerCallbackQuery (Some ''Unknown action'') False))"

text \<open>Lines 464 to 551: the actions that carry the identifier of a stored context.\<close>

definition invalidContextId :: "env \<Rightarrow> unit io" where
  "invalidContextId E =
     seqE [call E (AnswerCallbackQuery (Some ''Error: Invalid or missing message context ID.'') False),
           tryCatch (call E (EditMessageReplyMarkup [[]])) (\<lambda>_. ret ())]"

definition contextAction :: "env \<Rightarrow> config \<Rightarrow> string \<Rightarrow> string option \<Rightarrow> unit io" where
  "contextAction E cfg queryPrefix dataPart =
     (case dataPart of
        None \<Rightarrow> invalidContextId E
      | Some messageStoreId \<Rightarrow>
          if messageStoreId = [] \<or> length messageStoreId \<noteq> 36 then invalidContextId E
          else
            bindE (getMessageData messageStoreId) (\<lambda>found.
              case found of
                None \<Rightarrow>
                  seqE [call E (AnswerCallbackQuery
                                  (Some ''Error: Original message context not found (too old?).'') False),
                        tryCatch (call E (EditMessageReplyMarkup [[]])) (\<lambda>_. ret ())]
              | Some messageData \<Rightarrow>
                  tryCatch (processAction E cfg queryPrefix messageStoreId messageData)
                    (\<lambda>error.
                       tryCatch
                         (call E (Reply (''An error occurred while processing action ''
                                           @ [CHR 0x27] @ queryPrefix @ [CHR 0x27]
                                           @ ''. Please try again later.'') None))
                         (\<lambda>replyError. ret ()))))"

text \<open>
  The handler. \<open>runScraper()\<close> of the \<open>start_scraping\<close> button is started and not awaited:
  what it does later is not part of this run.
\<close>

definition buttonClickHandler :: "env \<Rightarrow> config \<Rightarrow> update_ctx \<Rightarrow> unit io" where
  "buttonClickHandler E cfg ctx =
     (let callbackData = (case callbackQuery ctx of None \<Rightarrow> None | Some q \<Rightarrow> cq_data q);
          queryId = (case callbackQuery ctx of None \<Rightarrow> None | Some q \<Rightarrow> Some (cq_id q))
      in case callbackData of
           None \<Rightarrow> ret ()
         | Some cbData \<Rightarrow>
             if cbData = [] \<or> fromId ctx = None \<or> \<not> truthy queryId then ret ()
             else if \<not> isUserAuthorized cfg ctx then
               call E (AnswerCallbackQuery (Some ''Error: Unauthorized action.'') True)
             else
               (case parseCallbackData cbData of
                  (queryPrefix, dataPart) \<Rightarrow>
                    if queryPrefix = ''gpt'' \<and>
                       (dataPart = Some ''4o'' \<or> dataPart = Some ''3.5t'' \<or> dataPart = Some ''cancel'')
                    then modelSelection E (case dataPart of None \<Rightarrow> [] | Some d \<Rightarrow> d)
                    else if queryPrefix = ''start_scraping'' then
                      seqE [call E (AnswerCallbackQuery (Some ''Starting scraping process...'') False),
                            call E (Reply ''Manual scraping process initiated. This might take a moment. Found articles will be sent to the editors group.'' None),
                            note_call RunScraper]
                    else if queryPrefix = ''support'' then
                      seqE [call E (AnswerCallbackQuery None False),
                            call E (Reply ''For support, please contact the bot admin or check the project documentation.'' None)]
                    else contextAction E cfg queryPrefix dataPart))"

section \<open>The prompt conversation: newPromptConversation (conversations.ts)\<close>

text \<open>The copy of \<open>sendActionPrompt\<close> that conversations.ts keeps.\<close>

definition sendActionPromptHelper :: "env \<Rightarrow> config \<Rightarrow> string \<Rightarrow> string option \<Rightarrow> unit io" where
  "sendActionPromptHelper E cfg text scrapedContent =
     bindE (uuidv4 E) (\<lambda>messageStoreId.
       let kb = createMainKeyboard messageStoreId;
           cancelKeyboard = createCancelKeyboard messageStoreId
       in seqE
         [modify (storeMessageData messageStoreId
            \<lparr>messageId = messageStoreId,
             originalMessageText = text,
             keyboard = Some kb,
             cancelButton = (case cancelKeyboard of [] \<Rightarrow> None | r # _ \<Rightarrow> Some r),
             scrapedMessageContent = scrapedContent,
             gptGeneratedContent = None\<rparr>),
          tryCatch
            (seqE
              [call E (SendMessage (editorsGroupId cfg) text (Some ''Markdown'') None),
               call E (SendMessage (editorsGroupId cfg) ''Choose an option:'' None (Some kb))])
            (\<lambda>error.
               tryCatch
                 (call E (SendMessage (editorsGroupId cfg) ''Choose an option:'' None (Some kb)))
                 (\<lambda>error2. ret ()))])"

definition callbackMessageId :: "update_ctx \<Rightarrow> int option" where
  "callbackMessageId ctx = (case callbackQuery ctx of None \<Rightarrow> None | Some q \<Rightarrow> cq_message_id q)"

text \<open>
  Lines 51 to 96, up to the suspension at \<open>conversation.waitFor(":text")\<close>. The result is
  \<open>None\<close> when the function has returned, and the context it holds when it is suspended.
\<close>

definition newPromptConversation_enter :: "env \<Rightarrow> config \<Rightarrow> update_ctx \<Rightarrow> MessageData option io" where
  "newPromptConversation_enter E cfg ctx w =
     (case messageStoreIdForNewPrompt (session w) of
        None \<Rightarrow>
          bindE (call E (Reply ''Error: Could not find the context for the new prompt. Please try again.'' None))
            (\<lambda>_. ret None) w
      | Some messageStoreId \<Rightarrow>
          if messageStoreId = [] then
            bindE (call E (Reply ''Error: Could not find the context for the new prompt. Please try again.'' None))
              (\<lambda>_. ret None) w
          else
            bindE (getMessageData messageStoreId) (\<lambda>found.
              case found of
                None \<Rightarrow>
                  bindE (seqE
                    [call E (Reply ''Error: Could not find the original message context. It might be too old.'' None),
                     (if callbackQuery ctx \<noteq> None
                      then tryCatch (call E (EditMessageReplyMarkup [[]])) (\<lambda>_. ret ())
                      else ret ())])
                    (\<lambda>_. ret None)
              | Some messageData \<Rightarrow>
                  (let cancelKeyboard = createCancelKeyboard messageStoreId in
                   bindE
                     (tryCatch
                        (case callbackMessageId ctx of
                           Some mid \<Rightarrow>
                             if mid \<noteq> 0 then
                               seqE [call E (ApiEditMessageText (editorsGroupId cfg) mid
                                               ''Please enter the new prompt for ChatGPT:''),
                                     call E (ApiEditMessageReplyMarkup (editorsGroupId cfg) mid cancelKeyboard)]
                             else
                               call E (Reply ''Please enter the new prompt for ChatGPT:'' (Some cancelKeyboard))
                         | None \<Rightarrow>
                             call E (Reply ''Please enter the new prompt for ChatGPT:'' (Some cancelKeyboard)))
                        (\<lambda>editError.
                           call E (Reply ''Please enter the new prompt for ChatGPT (failed to edit original message):''
                                     (Some cancelKeyboard))))
                     (\<lambda>_. ret (Some messageData)))) w)"

text \<open>
  Lines 101 to 137, once the wait has resolved with a message whose text is
  \<open>promptText\<close>.
\<close>

definition restoreKeyboard :: "env \<Rightarrow> config \<Rightarrow> update_ctx \<Rightarrow> MessageData \<Rightarrow> string \<Rightarrow> unit io" where
  "restoreKeyboard E cfg ctx messageData text =
     tryCatch
       (case (callbackMessageId ctx, keyboard messageData) of
          (Some mid, Some kb) \<Rightarrow>
            if mid \<noteq> 0 then
              seqE [call E (ApiEditMessageText (editorsGroupId cfg) mid text),
                    call E (ApiEditMessageReplyMarkup (editorsGroupId cfg) mid kb)]
            else ret ()
        | _ \<Rightarrow> ret ())
       (\<lambda>_. ret ())"

definition newPromptConversation_resume ::
  "env \<Rightarrow> config \<Rightarrow> update_ctx \<Rightarrow> MessageData \<Rightarrow> string option \<Rightarrow> unit io" where
  "newPromptConversation_resume E cfg ctx messageData promptText =
     seqE
       [(if truthy promptText then
           bindE (call E (Reply ''Processing with new prompt...'' None)) (\<lambda>_ w.
             (let newPrompt = (case promptText of None \<Rightarrow> [] | Some t \<Rightarrow> t);
                  contentToSend = or_else (scrapedMessageContent messageData) (originalMessageText messageData);
                  gptModel = or_else (Some (currentGptModel (session w))) (defaultModel cfg)
              in bindE (generateGptSummary E contentToSend newPrompt gptModel) (\<lambda>gptResult.
                   if truthy gptResult then
                     sendActionPromptHelper E cfg (case gptResult of None \<Rightarrow> [] | Some r \<Rightarrow> r) None
                   else
                     seqE [call E (Reply ''Sorry, failed to get a response from OpenAI with the new prompt.'' None),
                           restoreKeyboard E cfg ctx messageData ''Failed. Choose an option:''])) w)
         else
           seqE [call E (Reply ''Did not receive a valid prompt. Cancelling.'' None),
                 restoreKeyboard E cfg ctx messageData ''Cancelled. Choose an option:'']),
        modify (\<lambda>w. w\<lparr>session := (session w)\<lparr>messageStoreIdForNewPrompt := None\<rparr>\<rparr>)]"

text \<open>The whole function, for a wait that resolves with \<open>promptText\<close>.\<close>

definition newPromptConversation :: "env \<Rightarrow> config \<Rightarrow> update_ctx \<Rightarrow> string option \<Rightarrow> unit io" where
  "newPromptConversation E cfg ctx promptText =
     bindE (newPromptConversation_enter E cfg ctx) (\<lambda>suspended.
       case suspended of
         None \<Rightarrow> ret ()
       | Some messageData \<Rightarrow> newPromptConversation_resume E cfg ctx messageData promptText)"

section \<open>The scraper: runScraper (scraper.ts)\<close>

text \<open>\<open>scrapeArticleContent\<close> catches every error and returns the summary or null.\<close>

definition scrapeArticleContent :: "env \<Rightarrow> string \<Rightarrow> string option io" where
  "scrapeArticleContent E url w =
     (Inr (scraped E (length (trace w))), w\<lparr>trace := trace w @ [(ScrapeArticleContent url, True)]\<rparr>)"

text \<open>\<open>axios.get\<close> on the home page: it throws, or yields the status and the parsed elements.\<close>

definition httpGetHome :: "env \<Rightarrow> string \<Rightarrow> (nat \<times> article_element list) io" where
  "httpGetHome E url w =
     (case throws E (length (trace w)) of
        None \<Rightarrow> (Inr (httpHome E (length (trace w))), w\<lparr>trace := trace w @ [(HttpGet url, True)]\<rparr>)
      | Some e \<Rightarrow> (Inl e, w\<lparr>trace := trace w @ [(HttpGet url, False)]\<rparr>))"

text \<open>
  The three texts lines 106 to 136 build from a title, a summary and a link. The emoji and
  the blank that start \<open>linkOnlyMessage\<close> in the source are outside ASCII and left out.
\<close>

definition mkLinkOnlyMessage :: "string \<Rightarrow> string \<Rightarrow> string" where
  "mkLinkOnlyMessage t l = ''Scraped News:'' @ nl @ t @ nl @ ''Link: '' @ l"

definition tempFullIdentifier :: "string \<Rightarrow> string \<Rightarrow> string" where
  "tempFullIdentifier t l = t @ nl @ ''Link:'' @ l"

definition mkFullFormattedMessage :: "string \<Rightarrow> string \<Rightarrow> string \<Rightarrow> string" where
  "mkFullFormattedMessage t s l = t @ nl @ nl @ s @ nl @ nl @ ''Link: '' @ l"

text \<open>The body of the \<open>for\<close> loop, lines 90 to 178, for one element of the home page.\<close>

definition processArticle :: "env \<Rightarrow> config \<Rightarrow> article_element \<Rightarrow> unit io" where
  "processArticle E cfg element w =
     (case el_href element of
        None \<Rightarrow> ret () w
      | Some lnk \<Rightarrow>
          if el_title element = [] \<or> lnk = [] then ret () w
          else if hasNewsBeenSent
                    \<lparr>title = el_title element, link = lnk, summary = [],
                     fullFormattedMessage = tempFullIdentifier (el_title element) lnk,
                     linkOnlyMessage = mkLinkOnlyMessage (el_title element) lnk\<rparr> w
          then ret () w
          else
            bindE (scrapeArticleContent E lnk) (\<lambda>scrapedSummary.
              case scrapedSummary of
                None \<Rightarrow> ret ()
              | Some sm \<Rightarrow>
                  if sm = [] then ret ()
                  else
                    (let completeNewsItem =
                           \<lparr>title = el_title element, link = lnk, summary = sm,
                            fullFormattedMessage = mkFullFormattedMessage (el_title element) sm lnk,
                            linkOnlyMessage = mkLinkOnlyMessage (el_title element) lnk\<rparr>
                     in (\<lambda>w1.
                          if hasNewsBeenSent completeNewsItem w1 then ret () w1
                          else
                            bindE (uuidv4 E) (\<lambda>messageStoreId.
                              let kb = createMainKeyboard messageStoreId;
                                  cancelKeyboard = createCancelKeyboard messageStoreId
                              in seqE
                                [modify (storeMessageData messageStoreId
                                   \<lparr>messageId = messageStoreId,
                                    originalMessageText = linkOnlyMessage completeNewsItem,
                                    keyboard = Some kb,
                                    cancelButton = (case cancelKeyboard of [] \<Rightarrow> None | r # _ \<Rightarrow> Some r),
                                    scrapedMessageContent = Some (fullFormattedMessage completeNewsItem),
                                    gptGeneratedContent = None\<rparr>),
                                 tryCatch
                                   (seqE
                                     [call E (SendMessage (editorsGroupId cfg)
                                                (linkOnlyMessage completeNewsItem) (Some ''Markdown'') None),
                                      call E (SendMessage (editorsGroupId cfg)
                                                ''Choose an option for scraped news:'' None (Some kb)),
                                      modify (addSentNews completeNewsItem)])
                                   (\<lambda>error. ret ()),
                                 note_call (Sleep 2000)]) w1))) w)"

fun scrapeLoop :: "env \<Rightarrow> config \<Rightarrow> article_element list \<Rightarrow> unit io" where
  "scrapeLoop E cfg [] = ret ()"
| "scrapeLoop E cfg (element # rest) = bindE (processArticle E cfg element) (\<lambda>_. scrapeLoop E cfg rest)"

definition runScraper :: "env \<Rightarrow> config \<Rightarrow> unit io" where
  "runScraper E cfg =
     tryCatch
       (bindE (httpGetHome E (homeUrl cfg)) (\<lambda>homeResponse.
          case homeResponse of
            (status, articles) \<Rightarrow> if status \<noteq> 200 then ret () else scrapeLoop E cfg articles))
       (\<lambda>error. ret ())"

text \<open>\<open>n\<close> scrape cycles, one after the other.\<close>

fun runCycles :: "env \<Rightarrow> config \<Rightarrow> nat \<Rightarrow> unit io" where
  "runCycles E cfg 0 = ret ()"
| "runCycles E cfg (Suc n) = bindE (runScraper E cfg) (\<lambda>_. runCycles E cfg n)"


section \<open>Observations on traces\<close>

text \<open>The interactions a run added to the trace: those of \<open>w'\<close> beyond those of \<open>w\<close>.\<close>

definition newEvents :: "world \<Rightarrow> world \<Rightarrow> event list" where
  "newEvents w w' = drop (length (trace w)) (trace w')"

text \<open>Whether the environment lets the interaction at position \<open>k\<close> return.\<close>

definition returns :: "env \<Rightarrow> nat \<Rightarrow> bool" where
  "returns E k = (throws E k = None)"

text \<open>An attempt to send a chat message, and a message the scraper's keyboard prompt delivered.\<close>

fun isSend :: "event \<Rightarrow> bool" where
  "isSend (SendMessage c t pm kb, ok) = True"
| "isSend ev = False"

fun isDeliveredPrompt :: "event \<Rightarrow> bool" where
  "isDeliveredPrompt (SendMessage c t pm kb, ok) = (ok \<and> t = ''Choose an option for scraped news:'')"
| "isDeliveredPrompt ev = False"

section \<open>Inputs of the scenarios\<close>

text \<open>
  A well-formed identifier, a configuration with one authorised user, a click of that
  user that carries a given payload, a stored context, a world that holds it, and an
  environment in which no call throws and every article page yields one paragraph
  (longer than the 30 characters \<open>scrapeArticleContent\<close> asks of a paragraph).
\<close>

definition token0 :: string where
  "token0 = ''123e4567-e89b-12d3-a456-426614174000''"

definition cfg0 :: config where
  "cfg0 = \<lparr>editorsGroupId = - 1001, newsChannelId = - 1002, allowedUserIds = [42],
           listenerUserId = None, defaultModel = ''gpt-4o'', readyPrompt = ''Summarise.'',
           homeUrl = ''https://www.ledgerinsights.com/category/news/''\<rparr>"

definition click :: "string \<Rightarrow> update_ctx" where
  "click payload =
     \<lparr>callbackQuery = Some \<lparr>cq_id = ''q1'', cq_data = Some payload, cq_message_id = Some 7\<rparr>,
      fromId = Some 42\<rparr>"

definition context0 :: MessageData where
  "context0 =
     \<lparr>messageId = token0, originalMessageText = ''Hello'',
      keyboard = Some (createMainKeyboard token0),
      cancelButton = Some [(''Cancel New Prompt'', ''cnp:'' @ token0)],
      scrapedMessageContent = None, gptGeneratedContent = None\<rparr>"

definition world0 :: world where
  "world0 =
     \<lparr>messageStore = [token0 \<mapsto> context0], newsList = {},
      session = \<lparr>currentGptModel = ''gpt-4o'', messageStoreIdForNewPrompt = None\<rparr>,
      trace = []\<rparr>"

definition calm :: env where
  "calm =
     \<lparr>throws = (\<lambda>k. None), gptAnswer = (\<lambda>k. Some ''Short''), scraped = (\<lambda>k. Some ''Central banks test tokenised deposits.''),
      uuid = (\<lambda>k. ''00000000-0000-4000-8000-000000000000''),
      httpHome = (\<lambda>k. (200, [\<lparr>el_title = ''A'', el_href = Some ''http://x/a''\<rparr>]))\<rparr>"

text \<open>The same environment, except that the interaction at position \<open>k\<close> throws \<open>e\<close>.\<close>

definition failing_at :: "nat \<Rightarrow> error \<Rightarrow> env" where
  "failing_at k e = calm\<lparr>throws := (\<lambda>i. if i = k then Some e else None)\<rparr>"

text \<open>An article element of the home page, as the environment \<open>calm\<close> serves it.\<close>

definition article0 :: article_element where
  "article0 = \<lparr>el_title = ''A'', el_href = Some ''http://x/a''\<rparr>"

section \<open>A step that respects the deduplication index\<close>

text \<open>
  What a run from \<open>w\<close> to \<open>w'\<close> may do about the fingerprint \<open>f\<close>: the trace only grows;
  when \<open>f\<close> was in the index it stays there and no message is sent; when it was not,
  either it is still not (and no keyboard prompt was delivered) or it is now (and exactly
  one keyboard prompt was delivered).
\<close>

definition dedupStep :: "string \<Rightarrow> world \<Rightarrow> world \<Rightarrow> bool" where
  "dedupStep f w w' =
     (\<exists>evs. trace w' = trace w @ evs \<and>
        (if f \<in> newsList w then f \<in> newsList w' \<and> filter isSend evs = []
         else if f \<in> newsList w' then length (filter isDeliveredPrompt evs) = 1
         else filter isDeliveredPrompt evs = []))"

section \<open>The split the specification asks for\<close>

text \<open>
  The wording of the specification, for comparison with \<open>parseCallbackData\<close>: the action
  tag is the text before the first delimiter, and the data segment is the entire
  remainder of the payload after the first delimiter.
\<close>

definition spec_split_first :: "char \<Rightarrow> string \<Rightarrow> string \<times> string option" where
  "spec_split_first c s =
     (takeWhile (\<lambda>x. x \<noteq> c) s,
      case dropWhile (\<lambda>x. x \<noteq> c) s of [] \<Rightarrow> None | _ # r \<Rightarrow> Some r)"


section \<open>Properties of the delivery dispatcher\<close>

lemma sendLoop_rounds:
  assumes "\<forall>i<k. \<exists>e. api (attempts s + i) = Some e \<and> rateLimitRetryAfter e = Some (ras i)"
    and "attempts s + k \<le> n"
  shows "sendLoop api n s =
           sendLoop api n
             (s\<lparr>attempts := attempts s + k,
                waited := waited s @ backoffRounds (currentDelay s) ras k,
                currentDelay := currentDelay s * 2 ^ k\<rparr>)"
  using assms
proof (induction k arbitrary: s ras)
  case 0
  show ?case by (simp add: backoffRounds_def)
next
  case (Suc k)
  from Suc.prems(1) obtain e where e: "api (attempts s) = Some e" "rateLimitRetryAfter e = Some (ras 0)"
    by force
  let ?s' = "s\<lparr>attempts := attempts s + 1,
                waited := waited s @ [\<lparr>backoff = currentDelay s, waitTime = max (ras 0 * 1000) (currentDelay s)\<rparr>],
                currentDelay := currentDelay s * 2\<rparr>"
  have step: "sendLoop api n s = sendLoop api n ?s'"
    using e Suc.prems(2) by (subst sendLoop.simps) (simp add: Let_def)
  have later: "\<forall>i<k. \<exists>e. api (attempts ?s' + i) = Some e \<and> rateLimitRetryAfter e = Some ((ras \<circ> Suc) i)"
    using Suc.prems(1) by (auto dest: spec [where x = "Suc i" for i])
  have bound: "attempts ?s' + k \<le> n"
    using Suc.prems(2) by simp
  have rounds: "backoffRounds (currentDelay s) ras (Suc k) =
      \<lparr>backoff = currentDelay s, waitTime = max (ras 0 * 1000) (currentDelay s)\<rparr>
        # backoffRounds (currentDelay s * 2) (ras \<circ> Suc) k"
    unfolding backoffRounds_def
    by (simp add: upt_conv_Cons map_Suc_upt [symmetric] mult.assoc del: upt_Suc)
  show ?case
    unfolding step Suc.IH [OF later bound] rounds
    by (simp add: mult.assoc)
qed

lemma sendLoop_waited_prefix:
  "\<exists>ws. waited (snd (sendLoop api n s)) = waited s @ ws"
proof (induction api n s rule: sendLoop.induct)
  case (1 api maxRetries s)
  show ?case
  proof (cases "attempts s < maxRetries")
    case False
    then show ?thesis by (subst sendLoop.simps) simp
  next
    case True
    show ?thesis
    proof (cases "api (attempts s)")
      case None
      with True show ?thesis by (subst sendLoop.simps) simp
    next
      case (Some e)
      show ?thesis
      proof (cases "rateLimitRetryAfter e")
        case None
        with True Some show ?thesis by (subst sendLoop.simps) (simp add: Let_def)
      next
        case (Some r)
        from "1.IH" [OF True \<open>api (attempts s) = Some e\<close> refl Some refl refl]
        obtain ws where "waited (snd (sendLoop api maxRetries
             (s\<lparr>attempts := attempts s + 1,
                waited := waited s @ [\<lparr>backoff = currentDelay s, waitTime = max (r * 1000) (currentDelay s)\<rparr>],
                currentDelay := currentDelay s * 2\<rparr>))) = (waited s @ [\<lparr>backoff = currentDelay s, waitTime = max (r * 1000) (currentDelay s)\<rparr>]) @ ws"
          by (auto simp: Let_def)
        with True \<open>api (attempts s) = Some e\<close> Some show ?thesis
          by (subst sendLoop.simps) (simp add: Let_def)
      qed
    qed
  qed
qed




text \<open>
  Claim C6 as stated fails: with \<open>initialDelay\<close> = 1 s and two rate limits of 5 s, the first
  wait is 5000 ms, and the backoff of the second retry is 2000 ms, which is not at least
  twice the first wait.
\<close>

theorem C6_counterexample:
  "\<not> 2 * waitTime (waited (snd (sendMessageWithRetry
            (\<lambda>i. if i < 2 then Some (GrammyError [] 429 (Some 5)) else None) (Some 3) (Some 1000))) ! 0)
       \<le> backoff (waited (snd (sendMessageWithRetry
            (\<lambda>i. if i < 2 then Some (GrammyError [] 429 (Some 5)) else None) (Some 3) (Some 1000))) ! 1)"
  by (simp add: sendMessageWithRetry_def sendLoop.simps Let_def)

text \<open>
  Claim C6, amended. For a call with \<open>initialDelay\<close> = 1 s and at least two attempts whose
  first two attempts are rate limited with retry-after 5 s: the first retry waits
  \<open>max 5000 1000 = 5000\<close> ms; the backoff of the second retry is twice the previous backoff
  (2000 ms), whatever the first wait was; and the second retry waits \<open>max 5000 2000 = 5000\<close> ms.
\<close>

theorem C6_backoff_doubles_delay:
  assumes first: "api 0 = Some e0" "rateLimitRetryAfter e0 = Some 5"
    and second: "api 1 = Some e1" "rateLimitRetryAfter e1 = Some 5"
    and n: "2 \<le> n"
  shows "take 2 (waited (snd (sendMessageWithRetry api (Some n) (Some 1000)))) =
           [\<lparr>backoff = 1000, waitTime = 5000\<rparr>, \<lparr>backoff = 2000, waitTime = 5000\<rparr>]"
proof -
  let ?s0 = "\<lparr>attempts = 0, currentDelay = 1000, waited = []\<rparr>"
  have lim: "\<forall>i<2. \<exists>e. api (attempts ?s0 + i) = Some e \<and> rateLimitRetryAfter e = Some ((\<lambda>_. 5) i)"
    using first second by (auto simp: less_Suc_eq numeral_2_eq_2)
  have u2: "[0..<2] = [0, 1]" by (simp add: upt_rec)
  have "sendLoop api n ?s0 =
      sendLoop api n (?s0\<lparr>attempts := attempts ?s0 + 2,
                waited := waited ?s0 @ backoffRounds (currentDelay ?s0) (\<lambda>_. 5) 2,
                currentDelay := currentDelay ?s0 * 2 ^ 2\<rparr>)"
    by (rule sendLoop_rounds [OF lim]) (use n in simp)
  then have run: "sendMessageWithRetry api (Some n) (Some 1000) =
      sendLoop api n \<lparr>attempts = 2, currentDelay = 4000,
        waited = [\<lparr>backoff = 1000, waitTime = 5000\<rparr>, \<lparr>backoff = 2000, waitTime = 5000\<rparr>]\<rparr>"
    by (simp add: sendMessageWithRetry_def backoffRounds_def u2 numeral_2_eq_2)
  obtain ws where "waited (snd (sendMessageWithRetry api (Some n) (Some 1000))) =
      [\<lparr>backoff = 1000, waitTime = 5000\<rparr>, \<lparr>backoff = 2000, waitTime = 5000\<rparr>] @ ws"
    unfolding run
    using sendLoop_waited_prefix [of api n "\<lparr>attempts = 2, currentDelay = 4000,
        waited = [\<lparr>backoff = 1000, waitTime = 5000\<rparr>, \<lparr>backoff = 2000, waitTime = 5000\<rparr>]\<rparr>"]
    by auto
  then show ?thesis by simp
qed

text \<open>Claim C6, amended, at a transport that is rate limited twice and then accepts.\<close>

theorem C6_backoff_doubles_delay_witness:
  "take 2 (waited (snd (sendMessageWithRetry
       (\<lambda>i. if i < 2 then Some (GrammyError [] 429 (Some 5)) else None) (Some 3) (Some 1000)))) =
     [\<lparr>backoff = 1000, waitTime = 5000\<rparr>, \<lparr>backoff = 2000, waitTime = 5000\<rparr>]"
  by (rule C6_backoff_doubles_delay [where ?e0.0 = "GrammyError [] 429 (Some 5)" and ?e1.0 = "GrammyError [] 429 (Some 5)"]) simp_all

lemma split_on_nonempty: "split_on c s \<noteq> []"
  by (induction s) (auto split: list.splits)

lemma split_on_hd: "hd (split_on c s) = takeWhile (\<lambda>x. x \<noteq> c) s"
  by (induction s) (auto split: list.splits simp: split_on_nonempty)

lemma split_on_tl:
  "tl (split_on c s) = (case dropWhile (\<lambda>x. x \<noteq> c) s of [] \<Rightarrow> [] | _ # r \<Rightarrow> split_on c r)"
proof (induction s)
  case Nil
  show ?case by simp
next
  case (Cons x s)
  obtain p ps where sp: "split_on c s = p # ps"
    using split_on_nonempty [of c s] by (cases "split_on c s") auto
  with Cons.IH show ?case
    by (cases "x = c") simp_all
qed

lemma parseCallbackData_eq:
  "parseCallbackData s =
     (takeWhile (\<lambda>x. x \<noteq> CHR '':'') s,
      case dropWhile (\<lambda>x. x \<noteq> CHR '':'') s of
        [] \<Rightarrow> None
      | _ # r \<Rightarrow> Some (takeWhile (\<lambda>x. x \<noteq> CHR '':'') r))"
proof -
  obtain p ps where sp: "split_on CHR '':'' s = p # ps"
    using split_on_nonempty [of "CHR '':''" s] by (cases "split_on CHR '':'' s") auto
  have p: "p = takeWhile (\<lambda>x. x \<noteq> CHR '':'') s"
    using split_on_hd [of "CHR '':''" s] sp by simp
  have ps: "ps = (case dropWhile (\<lambda>x. x \<noteq> CHR '':'') s of [] \<Rightarrow> [] | _ # r \<Rightarrow> split_on CHR '':'' r)"
    using split_on_tl [of "CHR '':''" s] sp by simp
  show ?thesis
  proof (cases "dropWhile (\<lambda>x. x \<noteq> CHR '':'') s")
    case Nil
    with sp p ps show ?thesis
      by (simp add: parseCallbackData_def split_limit_def numeral_2_eq_2 del: dropWhile_eq_Nil_conv)
  next
    case (Cons a r)
    obtain q qs where sq: "split_on CHR '':'' r = q # qs"
      using split_on_nonempty [of "CHR '':''" r] by (cases "split_on CHR '':'' r") auto
    have q: "q = takeWhile (\<lambda>x. x \<noteq> CHR '':'') r"
      using split_on_hd [of "CHR '':''" r] sq by simp
    from Cons sp p ps sq q show ?thesis
      by (simp add: parseCallbackData_def split_limit_def numeral_2_eq_2)
  qed
qed



section \<open>Properties of the callback router\<close>

lemmas io_defs = ret_def bindE_def tryCatch_def modify_def call_def note_call_def
  getMessageData_def generateGptSummary_def uuidv4_def

lemma pos_simps:
  "n + 2 = Suc (Suc n)" "n + 3 = Suc (Suc (Suc n))" "n + 4 = Suc (Suc (Suc (Suc n)))"
  "n + 5 = Suc (Suc (Suc (Suc (Suc n))))" "n + 6 = Suc (Suc (Suc (Suc (Suc (Suc n)))))"
  by simp_all

lemma invalidContextId_run:
  "invalidContextId E w =
     (case throws E (length (trace w)) of
        Some e \<Rightarrow> (Inl e, w\<lparr>trace := trace w @
            [(AnswerCallbackQuery (Some ''Error: Invalid or missing message context ID.'') False, False)]\<rparr>)
      | None \<Rightarrow> (Inr (), w\<lparr>trace := trace w @
            [(AnswerCallbackQuery (Some ''Error: Invalid or missing message context ID.'') False, True),
             (EditMessageReplyMarkup [[]], returns E (length (trace w) + 1))]\<rparr>))"
  by (simp add: invalidContextId_def io_defs returns_def split: option.splits)

lemma handler_routes_to_contextAction:
  assumes "callbackQuery ctx = Some q" "cq_data q = Some cb" "cb \<noteq> []" "cq_id q \<noteq> []"
    and "isUserAuthorized cfg ctx"
    and "parseCallbackData cb = (p, dp)"
    and "\<not> (p = ''gpt'' \<and> (dp = Some ''4o'' \<or> dp = Some ''3.5t'' \<or> dp = Some ''cancel''))"
    and "p \<noteq> ''start_scraping''" "p \<noteq> ''support''"
  shows "buttonClickHandler E cfg ctx = contextAction E cfg p dp"
proof -
  have "fromId ctx \<noteq> None"
    using assms(5) by (auto simp: isUserAuthorized_def split: option.splits)
  with assms show ?thesis
    by (auto simp: buttonClickHandler_def truthy_def)
qed

lemma contextAction_unknown:
  assumes "length d = 36" "messageStore w d = Some md"
    and "p \<noteq> ''gpt''" "p \<noteq> ''chn''" "p \<noteq> ''prm''" "p \<noteq> ''cnp''"
  shows "contextAction E cfg p (Some d) w =
     (Inr (), w\<lparr>trace := trace w @
         (GetMessageData d, True) #
         (AnswerCallbackQuery (Some ''Unknown action'') False, returns E (length (trace w) + 1)) #
         (if returns E (length (trace w) + 1) then []
          else [(Reply (''An error occurred while processing action '' @ [CHR 0x27] @ p @ [CHR 0x27]
                         @ ''. Please try again later.'') None,
                 returns E (length (trace w) + 2))])\<rparr>)"
  using assms
  by (auto simp: contextAction_def processAction_def io_defs returns_def pos_simps split: option.splits)

lemma contextAction_not_found:
  assumes "length d = 36" "messageStore w d = None"
  shows "contextAction E cfg p (Some d) w =
     (case throws E (length (trace w) + 1) of
        Some e \<Rightarrow> (Inl e, w\<lparr>trace := trace w @
            [(GetMessageData d, True),
             (AnswerCallbackQuery (Some ''Error: Original message context not found (too old?).'') False, False)]\<rparr>)
      | None \<Rightarrow> (Inr (), w\<lparr>trace := trace w @
            [(GetMessageData d, True),
             (AnswerCallbackQuery (Some ''Error: Original message context not found (too old?).'') False, True),
             (EditMessageReplyMarkup [[]], returns E (length (trace w) + 2))]\<rparr>))"
  using assms
  by (auto simp: contextAction_def io_defs returns_def pos_simps split: option.splits)


lemma parse_prefixed:
  assumes "CHR '':'' \<notin> set p" "CHR '':'' \<notin> set d"
  shows "parseCallbackData (p @ '':'' @ d) = (p, Some d)"
proof -
  have 1: "takeWhile (\<lambda>x. x \<noteq> CHR '':'') (p @ CHR '':'' # d) = p"
    using assms(1) by (induction p) auto
  have 2: "dropWhile (\<lambda>x. x \<noteq> CHR '':'') (p @ CHR '':'' # d) = CHR '':'' # d"
    using assms(1) by (induction p) auto
  have 3: "takeWhile (\<lambda>x. x \<noteq> CHR '':'') d = d"
    using assms(2) by (induction d) auto
  show ?thesis
    by (simp add: parseCallbackData_eq 1 2 3 del: takeWhile_eq_all_conv)
qed

lemma publish_success:
  assumes "length d = 36" "messageStore w d = Some md"
    and "throws E (length (trace w) + 1) = None"
    and "throws E (length (trace w) + 2) = None"
    and "throws E (length (trace w) + 3) = None"
  shows "contextAction E cfg ''chn'' (Some d) w =
     (Inr (), w\<lparr>trace := trace w @
         [(GetMessageData d, True),
          (AnswerCallbackQuery (Some ''Sending to news channel...'') False, True),
          (SendMessage (newsChannelId cfg) (or_else (gptGeneratedContent md) (originalMessageText md))
             (Some ''Markdown'') None, True),
          (EditMessageText ''Sent to news channel!'' (Some [[]]), True)],
        messageStore := (messageStore w)(d := None)\<rparr>)"
  using assms
  by (auto simp: contextAction_def processAction_def io_defs deleteMessageData_def Let_def pos_simps)

lemma publish_text:
  assumes "length d = 36" "messageStore w d = Some md"
    and "throws E (length (trace w) + 1) = None"
  shows "take 3 (newEvents w (snd (contextAction E cfg ''chn'' (Some d) w))) =
         [(GetMessageData d, True),
          (AnswerCallbackQuery (Some ''Sending to news channel...'') False, True),
          (SendMessage (newsChannelId cfg) (or_else (gptGeneratedContent md) (originalMessageText md))
             (Some ''Markdown'') None, returns E (length (trace w) + 2))]"
  using assms
  by (auto simp: contextAction_def processAction_def io_defs deleteMessageData_def Let_def
        newEvents_def returns_def pos_simps split: option.splits)

lemma sendActionPrompt_run:
  "fst (sendActionPrompt E cfg text sc w) = Inr () \<and>
   messageStore (snd (sendActionPrompt E cfg text sc w)) =
     (messageStore w)(uuid E (length (trace w)) \<mapsto>
        \<lparr>messageId = uuid E (length (trace w)), originalMessageText = text,
         keyboard = Some (createMainKeyboard (uuid E (length (trace w)))),
         cancelButton = Some [(''Cancel New Prompt'', ''cnp:'' @ uuid E (length (trace w)))],
         scrapedMessageContent = sc, gptGeneratedContent = None\<rparr>)"
  by (auto simp: sendActionPrompt_def io_defs storeMessageData_def Let_def createCancelKeyboard_def
        split: option.splits)

lemma rewrite_stores_result:
  assumes "length d = 36" "messageStore w d = Some md"
    and "throws E (length (trace w) + 1) = None"
    and "gptAnswer E (length (trace w) + 2) = Some r" "r \<noteq> []"
  shows "\<exists>md1. messageStore (snd (contextAction E cfg ''gpt'' (Some d) w)) d = Some md1 \<and>
           or_else (gptGeneratedContent md1) (originalMessageText md1) = r"
proof -
  let ?w3 = "w\<lparr>trace := trace w @
         [(GetMessageData d, True),
          (AnswerCallbackQuery (Some ''Processing with GPT...'') False, True),
          (GenerateGptSummary (or_else (scrapedMessageContent md) (originalMessageText md)) (readyPrompt cfg)
             (or_else (Some (currentGptModel (session w))) (defaultModel cfg)), True)],
        messageStore := (messageStore w)(d \<mapsto> md\<lparr>gptGeneratedContent := Some r\<rparr>)\<rparr>"
  show ?thesis
  proof (cases "throws E (length (trace w) + 3)")
    case (Some e)
    with assms show ?thesis
      by (auto simp: contextAction_def processAction_def io_defs storeMessageData_def Let_def or_else_def
            pos_simps split: option.splits)
  next
    case None
    let ?w4 = "?w3\<lparr>trace := trace ?w3 @ [(SendMessage (editorsGroupId cfg) ''GPT Summary Generated:'' None None, True)]\<rparr>"
    obtain w5 where w5: "sendActionPrompt E cfg r None ?w4 = (Inr (), w5)"
      and st5: "messageStore w5 = (messageStore ?w4)(uuid E (length (trace ?w4)) \<mapsto>
        \<lparr>messageId = uuid E (length (trace ?w4)), originalMessageText = r,
         keyboard = Some (createMainKeyboard (uuid E (length (trace ?w4)))),
         cancelButton = Some [(''Cancel New Prompt'', ''cnp:'' @ uuid E (length (trace ?w4)))],
         scrapedMessageContent = None, gptGeneratedContent = None\<rparr>)"
      using sendActionPrompt_run [of E cfg r None ?w4]
      by (cases "sendActionPrompt E cfg r None ?w4") auto
    have "\<exists>w6. snd (contextAction E cfg ''gpt'' (Some d) w) = w6 \<and> messageStore w6 = messageStore w5"
      using assms None w5
      by (auto simp: contextAction_def processAction_def storeMessageData_def Let_def
            ret_def bindE_def tryCatch_def modify_def call_def getMessageData_def generateGptSummary_def
            pos_simps split: option.splits)
    then show ?thesis
      using st5 by (auto simp: or_else_def \<open>r \<noteq> []\<close>)
  qed
qed


text \<open>
  What the router does with the two pieces of its own parse (lines 409 to 411). Take a
  click of an authorised user whose payload \<open>parseCallbackData\<close> cuts into the prefix \<open>p\<close>
  and the piece \<open>dp\<close>, and which is none of the literal actions (model selection, start
  of scraping, support). If \<open>dp\<close> is missing or is not 36 characters long, the router's
  first interaction is the acknowledgement "Error: Invalid or missing message context ID."
  (followed, when that call returned, by a best-effort removal of the keyboard), the
  context store is never looked up and is left as it was. If \<open>dp\<close> has 36 characters, its
  context exists and the prefix is none of gpt, chn, prm, cnp, the router looks the
  context up and answers "Unknown action"; it returns normally (a failure of that answer
  is caught and reported in the chat). For a payload with one delimiter \<open>dp\<close> is the data
  segment; for a payload with more it is only the part up to the second delimiter.
\<close>

lemma router_rejects_parsed_piece:
  assumes click: "callbackQuery ctx = Some q" "cq_data q = Some cb" "cb \<noteq> []" "cq_id q \<noteq> []"
    and auth: "isUserAuthorized cfg ctx"
    and parsed: "parseCallbackData cb = (p, dp)"
    and needs_context:
      "\<not> (p = ''gpt'' \<and> (dp = Some ''4o'' \<or> dp = Some ''3.5t'' \<or> dp = Some ''cancel''))"
      "p \<noteq> ''start_scraping''" "p \<noteq> ''support''"
  shows
    "((dp = None \<or> (\<exists>d. dp = Some d \<and> length d \<noteq> 36)) \<longrightarrow>
        newEvents w (snd (buttonClickHandler E cfg ctx w)) =
          (AnswerCallbackQuery (Some ''Error: Invalid or missing message context ID.'') False,
           returns E (length (trace w))) #
          (if returns E (length (trace w))
           then [(EditMessageReplyMarkup [[]], returns E (length (trace w) + 1))] else []) \<and>
        (\<forall>i b. (GetMessageData i, b) \<notin> set (newEvents w (snd (buttonClickHandler E cfg ctx w)))) \<and>
        messageStore (snd (buttonClickHandler E cfg ctx w)) = messageStore w) \<and>
     (\<forall>d md. dp = Some d \<and> length d = 36 \<and> messageStore w d = Some md \<and>
         p \<noteq> ''gpt'' \<and> p \<noteq> ''chn'' \<and> p \<noteq> ''prm'' \<and> p \<noteq> ''cnp'' \<longrightarrow>
        buttonClickHandler E cfg ctx w =
          (Inr (), w\<lparr>trace := trace w @
             (GetMessageData d, True) #
             (AnswerCallbackQuery (Some ''Unknown action'') False, returns E (length (trace w) + 1)) #
             (if returns E (length (trace w) + 1) then []
              else [(Reply (''An error occurred while processing action '' @ [CHR 0x27] @ p @ [CHR 0x27]
                             @ ''. Please try again later.'') None,
                     returns E (length (trace w) + 2))])\<rparr>))"
proof -
  have route: "buttonClickHandler E cfg ctx = contextAction E cfg p dp"
    by (rule handler_routes_to_contextAction [OF click auth parsed needs_context])
  have invalid: "contextAction E cfg p dp w = invalidContextId E w"
    if "dp = None \<or> (\<exists>d. dp = Some d \<and> length d \<noteq> 36)"
    using that by (auto simp: contextAction_def)
  have events: "newEvents w (snd (invalidContextId E w)) =
          (AnswerCallbackQuery (Some ''Error: Invalid or missing message context ID.'') False,
           returns E (length (trace w))) #
          (if returns E (length (trace w))
           then [(EditMessageReplyMarkup [[]], returns E (length (trace w) + 1))] else [])"
    and store: "messageStore (snd (invalidContextId E w)) = messageStore w"
    by (auto simp: invalidContextId_run newEvents_def returns_def split: option.splits)
  have no_get: "\<forall>i b. (GetMessageData i, b) \<notin> set (newEvents w (snd (invalidContextId E w)))"
    unfolding events by auto
  show ?thesis
    unfolding route
    using invalid events store no_get contextAction_unknown [of _ w _ p E cfg]
    by (auto simp del: split_paired_All)
qed


lemmas scenario_defs = token0_def cfg0_def click_def context0_def world0_def calm_def failing_at_def

text \<open>The same at a payload with a short data segment and at one with an unknown prefix.\<close>

lemma router_rejects_parsed_piece_example:
  "newEvents world0 (snd (buttonClickHandler calm cfg0 (click ''chn:short'') world0)) =
     [(AnswerCallbackQuery (Some ''Error: Invalid or missing message context ID.'') False, True),
      (EditMessageReplyMarkup [[]], True)] \<and>
   buttonClickHandler calm cfg0 (click (''zzz:'' @ token0)) world0 =
     (Inr (), world0\<lparr>trace :=
        [(GetMessageData token0, True), (AnswerCallbackQuery (Some ''Unknown action'') False, True)]\<rparr>)"
proof -
  have p1: "parseCallbackData ''chn:short'' = (''chn'', Some ''short'')"
    by (simp add: parseCallbackData_eq)
  have p2: "parseCallbackData (''zzz:'' @ token0) = (''zzz'', Some token0)"
    by (simp add: parseCallbackData_eq token0_def)
  have auth: "isUserAuthorized cfg0 (click x)" for x
    by (simp add: isUserAuthorized_def cfg0_def click_def)
  have 1: "newEvents world0 (snd (buttonClickHandler calm cfg0 (click ''chn:short'') world0)) =
     [(AnswerCallbackQuery (Some ''Error: Invalid or missing message context ID.'') False, True),
      (EditMessageReplyMarkup [[]], True)]"
    using router_rejects_parsed_piece [where ctx = "click ''chn:short''" and cb = "''chn:short''"
        and q = "\<lparr>cq_id = ''q1'', cq_data = Some ''chn:short'', cq_message_id = Some 7\<rparr>"
        and cfg = cfg0 and p = "''chn''" and dp = "Some ''short''" and w = world0 and E = calm,
        OF _ _ _ _ auth p1]
    by (simp add: click_def returns_def calm_def)
  have 2: "buttonClickHandler calm cfg0 (click (''zzz:'' @ token0)) world0 =
     (Inr (), world0\<lparr>trace :=
        [(GetMessageData token0, True), (AnswerCallbackQuery (Some ''Unknown action'') False, True)]\<rparr>)"
    using router_rejects_parsed_piece [where ctx = "click (''zzz:'' @ token0)" and cb = "''zzz:'' @ token0"
        and q = "\<lparr>cq_id = ''q1'', cq_data = Some (''zzz:'' @ token0), cq_message_id = Some 7\<rparr>"
        and cfg = cfg0 and p = "''zzz''" and dp = "Some token0" and w = world0 and E = calm,
        OF _ _ _ _ auth p2]
    by (simp add: click_def returns_def calm_def world0_def token0_def)
  from 1 2 show ?thesis by simp
qed

text \<open>
  Claim C10. A publish click of an authorised user on a 36-character identifier whose
  context \<open>md\<close> is stored, and whose acknowledgement the transport accepts, looks the context
  up, acknowledges, and then sends to the news channel the text \<open>gptGeneratedContent md\<close>
  when that is present and non-empty, and \<open>originalMessageText md\<close> otherwise. When the
  world of the click results from a rewrite click on the same identifier whose model call
  returned the non-empty text \<open>r\<close>, that text is \<open>r\<close>.
\<close>

theorem C10_publish_text:
  assumes click: "callbackQuery ctx = Some q" "cq_data q = Some (''chn:'' @ d)" "cq_id q \<noteq> []"
    and auth: "isUserAuthorized cfg ctx"
    and token: "length d = 36" "CHR '':'' \<notin> set d"
    and stored: "messageStore w d = Some md"
    and acked: "returns E (length (trace w) + 1)"
  shows
    "take 3 (newEvents w (snd (buttonClickHandler E cfg ctx w))) =
       [(GetMessageData d, True),
        (AnswerCallbackQuery (Some ''Sending to news channel...'') False, True),
        (SendMessage (newsChannelId cfg)
           (case gptGeneratedContent md of
              None \<Rightarrow> originalMessageText md
            | Some g \<Rightarrow> if g = [] then originalMessageText md else g)
           (Some ''Markdown'') None,
         returns E (length (trace w) + 2))] \<and>
     (\<forall>w0 E0 ctxG qG md0 r.
        callbackQuery ctxG = Some qG \<and> cq_data qG = Some (''gpt:'' @ d) \<and> cq_id qG \<noteq> [] \<and>
        isUserAuthorized cfg ctxG \<and> messageStore w0 d = Some md0 \<and>
        returns E0 (length (trace w0) + 1) \<and>
        gptAnswer E0 (length (trace w0) + 2) = Some r \<and> r \<noteq> [] \<and>
        w = snd (buttonClickHandler E0 cfg ctxG w0) \<longrightarrow>
        (case gptGeneratedContent md of
           None \<Rightarrow> originalMessageText md
         | Some g \<Rightarrow> if g = [] then originalMessageText md else g) = r)"
proof -
  have parsed: "parseCallbackData (''chn:'' @ d) = (''chn'', Some d)"
    using parse_prefixed [of "''chn''" d] token by simp
  have route: "buttonClickHandler E cfg ctx = contextAction E cfg ''chn'' (Some d)"
    by (rule handler_routes_to_contextAction [OF click(1,2) _ click(3) auth parsed]) simp_all
  have first: "take 3 (newEvents w (snd (buttonClickHandler E cfg ctx w))) =
       [(GetMessageData d, True),
        (AnswerCallbackQuery (Some ''Sending to news channel...'') False, True),
        (SendMessage (newsChannelId cfg)
           (case gptGeneratedContent md of
              None \<Rightarrow> originalMessageText md
            | Some g \<Rightarrow> if g = [] then originalMessageText md else g)
           (Some ''Markdown'') None,
         returns E (length (trace w) + 2))]"
    unfolding route
    using publish_text [OF token(1) stored, of E cfg] acked
    by (simp add: returns_def or_else_def)
  have second: "(case gptGeneratedContent md of
           None \<Rightarrow> originalMessageText md
         | Some g \<Rightarrow> if g = [] then originalMessageText md else g) = r"
    if g: "callbackQuery ctxG = Some qG" "cq_data qG = Some (''gpt:'' @ d)" "cq_id qG \<noteq> []"
        "isUserAuthorized cfg ctxG" "messageStore w0 d = Some md0"
        "returns E0 (length (trace w0) + 1)"
        "gptAnswer E0 (length (trace w0) + 2) = Some r" "r \<noteq> []"
        "w = snd (buttonClickHandler E0 cfg ctxG w0)"
    for w0 E0 ctxG qG md0 r
  proof -
    have parsedG: "parseCallbackData (''gpt:'' @ d) = (''gpt'', Some d)"
      using parse_prefixed [of "''gpt''" d] token by simp
    have not_model: "\<not> (''gpt'' = ''gpt'' \<and> (Some d = Some ''4o'' \<or> Some d = Some ''3.5t'' \<or> Some d = Some ''cancel''))"
      using token(1) by auto
    have routeG: "buttonClickHandler E0 cfg ctxG = contextAction E0 cfg ''gpt'' (Some d)"
      by (rule handler_routes_to_contextAction [OF g(1,2) _ g(3,4) parsedG not_model]) simp_all
    obtain md1 where "messageStore w d = Some md1"
        "or_else (gptGeneratedContent md1) (originalMessageText md1) = r"
      using rewrite_stores_result [OF token(1) g(5) _ g(7,8), of cfg] g(6,9)
      unfolding routeG returns_def by auto
    with stored show ?thesis by (simp add: or_else_def)
  qed
  from first second show ?thesis by blast
qed

lemmas handler_defs = buttonClickHandler_def contextAction_def processAction_def invalidContextId_def
  modelSelection_def sendActionPrompt_def isUserAuthorized_def truthy_def or_else_def
  storeMessageData_def deleteMessageData_def createMainKeyboard_def createCancelKeyboard_def
  parseCallbackData_eq

text \<open>Claim C10 at a fresh context, and at the same context after a rewrite that returned "Short".\<close>

theorem C10_publish_text_witness:
  "take 3 (newEvents world0 (snd (buttonClickHandler calm cfg0 (click (''chn:'' @ token0)) world0))) =
       [(GetMessageData token0, True),
        (AnswerCallbackQuery (Some ''Sending to news channel...'') False, True),
        (SendMessage (- 1002) ''Hello'' (Some ''Markdown'') None, True)] \<and>
   take 3 (newEvents (snd (buttonClickHandler calm cfg0 (click (''gpt:'' @ token0)) world0))
        (snd (buttonClickHandler calm cfg0 (click (''chn:'' @ token0))
           (snd (buttonClickHandler calm cfg0 (click (''gpt:'' @ token0)) world0))))) =
       [(GetMessageData token0, True),
        (AnswerCallbackQuery (Some ''Sending to news channel...'') False, True),
        (SendMessage (- 1002) ''Short'' (Some ''Markdown'') None, True)]"
proof -
  have auth: "isUserAuthorized cfg0 (click x)" for x
    by (simp add: isUserAuthorized_def cfg0_def click_def)
  have 1: "take 3 (newEvents world0 (snd (buttonClickHandler calm cfg0 (click (''chn:'' @ token0)) world0))) =
       [(GetMessageData token0, True),
        (AnswerCallbackQuery (Some ''Sending to news channel...'') False, True),
        (SendMessage (- 1002) ''Hello'' (Some ''Markdown'') None, True)]"
    using C10_publish_text [where ctx = "click (''chn:'' @ token0)" and d = token0
        and q = "\<lparr>cq_id = ''q1'', cq_data = Some (''chn:'' @ token0), cq_message_id = Some 7\<rparr>"
        and cfg = cfg0 and w = world0 and E = calm and md = context0, OF _ _ _ auth,
        THEN conjunct1]
    by (simp add: click_def returns_def calm_def world0_def token0_def context0_def cfg0_def)
  let ?w1 = "snd (buttonClickHandler calm cfg0 (click (''gpt:'' @ token0)) world0)"
  have st: "messageStore ?w1 token0 = Some (context0\<lparr>gptGeneratedContent := Some ''Short''\<rparr>)"
    by (simp add: handler_defs io_defs scenario_defs Let_def)
  note t = C10_publish_text [where ctx = "click (''chn:'' @ token0)" and d = token0
        and q = "\<lparr>cq_id = ''q1'', cq_data = Some (''chn:'' @ token0), cq_message_id = Some 7\<rparr>"
        and cfg = cfg0 and w = ?w1 and E = calm
        and md = "context0\<lparr>gptGeneratedContent := Some ''Short''\<rparr>", OF _ _ _ auth _ _ st]
  have pre: "callbackQuery (click (''chn:'' @ token0)) =
        Some \<lparr>cq_id = ''q1'', cq_data = Some (''chn:'' @ token0), cq_message_id = Some 7\<rparr>"
      "length token0 = 36" "CHR '':'' \<notin> set token0" "returns calm k" for k
    by (simp_all add: click_def token0_def returns_def calm_def)
  have sent_text: "(case gptGeneratedContent (context0\<lparr>gptGeneratedContent := Some ''Short''\<rparr>) of
           None \<Rightarrow> originalMessageText (context0\<lparr>gptGeneratedContent := Some ''Short''\<rparr>)
         | Some g \<Rightarrow> if g = [] then originalMessageText (context0\<lparr>gptGeneratedContent := Some ''Short''\<rparr>) else g)
       = ''Short''"
    using t [THEN conjunct2, rule_format, of "click (''gpt:'' @ token0)"
        "\<lparr>cq_id = ''q1'', cq_data = Some (''gpt:'' @ token0), cq_message_id = Some 7\<rparr>"
        world0 context0 calm "''Short''"] pre auth
    by (simp add: click_def world0_def calm_def returns_def)
  have 2: "take 3 (newEvents ?w1 (snd (buttonClickHandler calm cfg0 (click (''chn:'' @ token0)) ?w1))) =
       [(GetMessageData token0, True),
        (AnswerCallbackQuery (Some ''Sending to news channel...'') False, True),
        (SendMessage (- 1002) ''Short'' (Some ''Markdown'') None, True)]"
    using t [THEN conjunct1] pre
    unfolding sent_text by (simp add: cfg0_def)
  from 1 2 show ?thesis by simp
qed

text \<open>
  Claim C7 (the router splits on the first delimiter only, and the data segment is the
  entire remainder) does not hold of the code: on a payload with a second delimiter,
  \<open>split(':', 2)\<close> cuts at every delimiter and keeps two pieces, so the data segment ends
  at the second delimiter. Here it is a well-formed 36-character identifier, where the
  remainder after the first delimiter has 38 characters; the router takes the click for a
  publish click on that identifier and publishes its context.
\<close>

theorem C7_split_drops_remainder:
  "parseCallbackData ''chn:123e4567-e89b-12d3-a456-426614174000:x'' =
     (''chn'', Some ''123e4567-e89b-12d3-a456-426614174000'') \<and>
   spec_split_first CHR '':'' ''chn:123e4567-e89b-12d3-a456-426614174000:x'' =
     (''chn'', Some ''123e4567-e89b-12d3-a456-426614174000:x'') \<and>
   newEvents world0
       (snd (buttonClickHandler calm cfg0 (click ''chn:123e4567-e89b-12d3-a456-426614174000:x'') world0)) =
     [(GetMessageData token0, True),
      (AnswerCallbackQuery (Some ''Sending to news channel...'') False, True),
      (SendMessage (- 1002) ''Hello'' (Some ''Markdown'') None, True),
      (EditMessageText ''Sent to news channel!'' (Some [[]]), True)]"
  by (simp add: handler_defs io_defs scenario_defs Let_def spec_split_first_def newEvents_def)

text \<open>
  Claim C9 (a click whose data segment is missing or not exactly 36 characters long is
  answered with an error acknowledgement, and the context store is never looked up) does
  not hold of the code, by the defect of claim C7: the data segment of this payload, the
  remainder after the first delimiter, has 38 characters, yet the router keeps only its
  first 36, gives no error acknowledgement, looks that identifier up in the store,
  publishes its context and deletes it.
\<close>

theorem C9_long_segment_reaches_store:
  "spec_split_first CHR '':'' (''chn:'' @ token0 @ '':x'') = (''chn'', Some (token0 @ '':x'')) \<and>
   length (token0 @ '':x'') = 38 \<and>
   newEvents world0 (snd (buttonClickHandler calm cfg0 (click (''chn:'' @ token0 @ '':x'')) world0)) =
     [(GetMessageData token0, True),
      (AnswerCallbackQuery (Some ''Sending to news channel...'') False, True),
      (SendMessage (newsChannelId cfg0) (originalMessageText context0) (Some ''Markdown'') None, True),
      (EditMessageText ''Sent to news channel!'' (Some [[]]), True)] \<and>
   messageStore world0 token0 = Some context0 \<and>
   messageStore (snd (buttonClickHandler calm cfg0 (click (''chn:'' @ token0 @ '':x'')) world0)) token0 = None"
  by (simp add: handler_defs io_defs scenario_defs Let_def spec_split_first_def newEvents_def)

text \<open>
  When the acknowledgement, the channel message and the confirmation edit of a publish
  click all return, the context is deleted, and a second publish click on the same
  identifier finds no context: it is acknowledged with "context not found", a removal of
  the keyboard is attempted, nothing is sent and the store is not changed.
\<close>

lemma publish_then_second_click:
  assumes token: "length d = 36"
    and stored: "messageStore w d = Some md"
    and first: "contextAction E cfg ''chn'' (Some d) w = (r1, w1)"
    and sent: "returns E (length (trace w) + 1)" "returns E (length (trace w) + 2)"
      "returns E (length (trace w) + 3)"
  shows "messageStore w1 d = None \<and>
         newEvents w1 (snd (contextAction E' cfg ''chn'' (Some d) w1)) =
           (GetMessageData d, True) #
           (AnswerCallbackQuery (Some ''Error: Original message context not found (too old?).'') False,
            returns E' (length (trace w1) + 1)) #
           (if returns E' (length (trace w1) + 1)
            then [(EditMessageReplyMarkup [[]], returns E' (length (trace w1) + 2))] else []) \<and>
         messageStore (snd (contextAction E' cfg ''chn'' (Some d) w1)) = messageStore w1 \<and>
         (returns E' (length (trace w1) + 1) = (fst (contextAction E' cfg ''chn'' (Some d) w1) = Inr ()))"
proof -
  have w1: "w1 = w\<lparr>trace := trace w @
         [(GetMessageData d, True),
          (AnswerCallbackQuery (Some ''Sending to news channel...'') False, True),
          (SendMessage (newsChannelId cfg) (or_else (gptGeneratedContent md) (originalMessageText md))
             (Some ''Markdown'') None, True),
          (EditMessageText ''Sent to news channel!'' (Some [[]]), True)],
        messageStore := (messageStore w)(d := None)\<rparr>"
    using publish_success [OF token stored, of E cfg] sent first by (simp add: returns_def)
  then have gone: "messageStore w1 d = None" by simp
  show ?thesis
    using gone contextAction_not_found [OF token gone, of E' cfg "''chn''"]
    by (auto simp: newEvents_def returns_def split: option.splits)
qed

text \<open>
  Claim C1 (a publish that succeeded deletes the context, so that a second click on the
  same identifier publishes nothing) does not hold of the code when the channel message
  was sent and the confirmation edit that follows it (line 506) throws: the deletion of
  line 507 is skipped, the handler reports a failure to the editors, the context stays in
  the store, and the second click sends the same text to the news channel again.
\<close>

theorem C1_second_publish_after_failed_edit:
  "trace (snd (buttonClickHandler (failing_at 3 (GrammyError ''Too Many Requests: retry after 3'' 429 (Some 3))) cfg0
            (click (''chn:'' @ token0))
         (snd (buttonClickHandler (failing_at 3 (GrammyError ''Too Many Requests: retry after 3'' 429 (Some 3))) cfg0
            (click (''chn:'' @ token0)) world0)))) =
     [(GetMessageData token0, True),
      (AnswerCallbackQuery (Some ''Sending to news channel...'') False, True),
      (SendMessage (- 1002) ''Hello'' (Some ''Markdown'') None, True),
      (EditMessageText ''Sent to news channel!'' (Some [[]]), False),
      (SendMessage (- 1001) ''Failed to send message to the news channel. Error: Too Many Requests: retry after 3''
         None None, True),
      (GetMessageData token0, True),
      (AnswerCallbackQuery (Some ''Sending to news channel...'') False, True),
      (SendMessage (- 1002) ''Hello'' (Some ''Markdown'') None, True),
      (EditMessageText ''Sent to news channel!'' (Some [[]]), True)] \<and>
   messageStore (snd (buttonClickHandler (failing_at 3 (GrammyError ''Too Many Requests: retry after 3'' 429 (Some 3))) cfg0
            (click (''chn:'' @ token0)) world0)) token0 = Some context0"
  by (simp add: handler_defs io_defs scenario_defs Let_def)

text \<open>
  Claim C5 (the pending-prompt slot of the session is cleared on every exit path, the
  cancel path in particular) does not hold of the code. After a click on "New Prompt", the
  entry of the conversation and a click on its cancel button, the slot still holds the
  identifier: the \<open>cnp\<close> branch (lines 524 to 536) never assigns it, and the conversation
  it exits never reaches line 137. Nor is the slot cleared when the conversation finds no
  context at its entry and returns at line 69.
\<close>

theorem C5_cancel_keeps_pending_prompt:
  "messageStoreIdForNewPrompt (session
      (snd (buttonClickHandler calm cfg0 (click (''cnp:'' @ token0))
        (snd (newPromptConversation_enter calm cfg0 (click (''prm:'' @ token0))
          (snd (buttonClickHandler calm cfg0 (click (''prm:'' @ token0)) world0))))))) = Some token0 \<and>
   messageStoreIdForNewPrompt (session
      (snd (newPromptConversation calm cfg0 (click (''prm:'' @ token0)) (Some ''make it shorter'')
        (world0\<lparr>messageStore := Map.empty,
                session := \<lparr>currentGptModel = ''gpt-4o'', messageStoreIdForNewPrompt = Some token0\<rparr>\<rparr>)))) =
     Some token0 \<and>
   trace (snd (buttonClickHandler calm cfg0 (click (''cnp:'' @ token0))
        (snd (newPromptConversation_enter calm cfg0 (click (''prm:'' @ token0))
          (snd (buttonClickHandler calm cfg0 (click (''prm:'' @ token0)) world0)))))) =
     [(GetMessageData token0, True),
      (AnswerCallbackQuery None False, True),
      (EditMessageText ''Please reply with your custom prompt for GPT.''
         (Some (createCancelKeyboard token0)), True),
      (ConversationEnter ''newPromptConversation'', True),
      (GetMessageData token0, True),
      (ApiEditMessageText (editorsGroupId cfg0) 7 ''Please enter the new prompt for ChatGPT:'', True),
      (ApiEditMessageReplyMarkup (editorsGroupId cfg0) 7 (createCancelKeyboard token0), True),
      (GetMessageData token0, True),
      (AnswerCallbackQuery (Some ''Cancelled'') False, True),
      (EditMessageText ''Hello'' (Some (createMainKeyboard token0)), True),
      (ConversationExit, True)]"
  by (simp add: handler_defs io_defs scenario_defs Let_def newPromptConversation_def
        newPromptConversation_enter_def callbackMessageId_def)

text \<open>The cancel branch leaves the session as it was, whatever the transport does.\<close>

lemma cancel_leaves_session:
  "session (snd (contextAction E cfg ''cnp'' dp w)) = session w"
  by (auto simp: contextAction_def processAction_def invalidContextId_def io_defs Let_def
        split: option.splits)


text \<open>
  The paths of the conversation that run to its last line do clear the slot: whenever the
  part after the wait returns normally, with a prompt or without, with a rewrite or
  without, the slot is empty afterwards.
\<close>

lemma sendActionPromptHelper_session:
  "fst (sendActionPromptHelper E cfg text sc w) = Inr () \<and>
   session (snd (sendActionPromptHelper E cfg text sc w)) = session w"
  by (auto simp: sendActionPromptHelper_def io_defs storeMessageData_def Let_def split: option.splits)

lemma restoreKeyboard_session:
  "fst (restoreKeyboard E cfg ctx md text w) = Inr () \<and>
   session (snd (restoreKeyboard E cfg ctx md text w)) = session w"
  by (auto simp: restoreKeyboard_def io_defs split: option.splits)

lemma resume_clears_slot:
  assumes "fst (newPromptConversation_resume E cfg ctx md promptText w) = Inr ()"
  shows "messageStoreIdForNewPrompt (session (snd (newPromptConversation_resume E cfg ctx md promptText w))) = None"
proof (cases "truthy promptText")
  case False
  with assms show ?thesis
    using restoreKeyboard_session [of E cfg ctx md "''Cancelled. Choose an option:''"]
    by (auto simp: newPromptConversation_resume_def bindE_def ret_def modify_def call_def
          split: option.splits sum.splits prod.splits)
next
  case True
  with assms show ?thesis
    using restoreKeyboard_session [of E cfg ctx md "''Failed. Choose an option:''"]
      sendActionPromptHelper_session [of E cfg _ None]
    by (auto simp: newPromptConversation_resume_def bindE_def ret_def modify_def call_def
          generateGptSummary_def Let_def
          split: option.splits sum.splits prod.splits if_splits)
qed

section \<open>Properties of the scraper and the deduplication index\<close>

lemmas scraper_defs = processArticle_def scrapeArticleContent_def hasNewsBeenSent_def addSentNews_def
  storeMessageData_def

text \<open>The body of the loop, path by path: what one article leaves behind.\<close>

lemma processArticle_run:
  "processArticle E cfg el w =
     (Inr (),
      case el_href el of
        None \<Rightarrow> w
      | Some l \<Rightarrow>
          if el_title el = [] \<or> l = [] \<or> tempFullIdentifier (el_title el) l \<in> newsList w then w
          else
            (case scraped E (length (trace w)) of
               None \<Rightarrow> w\<lparr>trace := trace w @ [(ScrapeArticleContent l, True)]\<rparr>
             | Some sm \<Rightarrow>
                 if sm = [] \<or> mkFullFormattedMessage (el_title el) sm l \<in> newsList w
                 then w\<lparr>trace := trace w @ [(ScrapeArticleContent l, True)]\<rparr>
                 else
                   (let i = uuid E (length (trace w) + 1);
                        stored = (messageStore w)(i \<mapsto>
                          \<lparr>messageId = i,
                           originalMessageText = mkLinkOnlyMessage (el_title el) l,
                           keyboard = Some (createMainKeyboard i),
                           cancelButton = Some [(''Cancel New Prompt'', ''cnp:'' @ i)],
                           scrapedMessageContent = Some (mkFullFormattedMessage (el_title el) sm l),
                           gptGeneratedContent = None\<rparr>);
                        link_message = SendMessage (editorsGroupId cfg)
                          (mkLinkOnlyMessage (el_title el) l) (Some ''Markdown'') None;
                        prompt = SendMessage (editorsGroupId cfg)
                          ''Choose an option for scraped news:'' None (Some (createMainKeyboard i))
                    in if \<not> returns E (length (trace w) + 2) then
                         w\<lparr>messageStore := stored,
                           trace := trace w @ [(ScrapeArticleContent l, True), (Uuidv4, True),
                                               (link_message, False), (Sleep 2000, True)]\<rparr>
                       else if \<not> returns E (length (trace w) + 3) then
                         w\<lparr>messageStore := stored,
                           trace := trace w @ [(ScrapeArticleContent l, True), (Uuidv4, True),
                                               (link_message, True), (prompt, False), (Sleep 2000, True)]\<rparr>
                       else
                         w\<lparr>messageStore := stored,
                           newsList := insert (mkFullFormattedMessage (el_title el) sm l) (newsList w),
                           trace := trace w @ [(ScrapeArticleContent l, True), (Uuidv4, True),
                                               (link_message, True), (prompt, True), (Sleep 2000, True)]\<rparr>)))"
  by (auto simp: scraper_defs io_defs Let_def returns_def pos_simps createCancelKeyboard_def
        split: option.splits)


text \<open>
  Claim C4. Processing one article changes the deduplication index only by adding the
  article's full-text fingerprint, and only in a run whose interactions are the fetch of
  the content, the identifier, the link message and the keyboard prompt both sent to the
  editors group successfully, and the pause. If any call of the run throws, the index is
  left unchanged and the loop goes on (the run returns normally); neither fingerprint of
  the article is in the index afterwards, and the next time the article is processed on
  that index with the same content its link message is sent again.
\<close>

theorem C4_marked_only_after_delivery:
  assumes run: "processArticle E cfg el w = (r, w')"
  shows
    "(newsList w' \<noteq> newsList w \<longrightarrow>
        (\<exists>l sm i. el_href el = Some l \<and> scraped E (length (trace w)) = Some sm \<and>
           newsList w' = insert (mkFullFormattedMessage (el_title el) sm l) (newsList w) \<and>
           newEvents w w' =
             [(ScrapeArticleContent l, True), (Uuidv4, True),
              (SendMessage (editorsGroupId cfg) (mkLinkOnlyMessage (el_title el) l) (Some ''Markdown'') None, True),
              (SendMessage (editorsGroupId cfg) ''Choose an option for scraped news:'' None
                 (Some (createMainKeyboard i)), True),
              (Sleep 2000, True)])) \<and>
     ((\<exists>c. (c, False) \<in> set (newEvents w w')) \<longrightarrow>
        newsList w' = newsList w \<and> r = Inr () \<and>
        (\<exists>l sm. el_href el = Some l \<and> scraped E (length (trace w)) = Some sm \<and>
           tempFullIdentifier (el_title el) l \<notin> newsList w' \<and>
           mkFullFormattedMessage (el_title el) sm l \<notin> newsList w' \<and>
           (\<forall>E'. scraped E' (length (trace w')) = Some sm \<longrightarrow>
              (SendMessage (editorsGroupId cfg) (mkLinkOnlyMessage (el_title el) l) (Some ''Markdown'') None,
               returns E' (length (trace w') + 2))
                \<in> set (newEvents w' (snd (processArticle E' cfg el w'))))))"
proof -
  have w': "w' = snd (processArticle E cfg el w)" and r: "r = Inr ()"
    using run by (simp_all add: processArticle_run)
  have marked: "newsList w' \<noteq> newsList w \<longrightarrow>
        (\<exists>l sm i. el_href el = Some l \<and> scraped E (length (trace w)) = Some sm \<and>
           newsList w' = insert (mkFullFormattedMessage (el_title el) sm l) (newsList w) \<and>
           newEvents w w' =
             [(ScrapeArticleContent l, True), (Uuidv4, True),
              (SendMessage (editorsGroupId cfg) (mkLinkOnlyMessage (el_title el) l) (Some ''Markdown'') None, True),
              (SendMessage (editorsGroupId cfg) ''Choose an option for scraped news:'' None
                 (Some (createMainKeyboard i)), True),
              (Sleep 2000, True)])"
    unfolding w'
    by (auto simp: processArticle_run newEvents_def Let_def split: option.splits if_splits)
  have failed: "newsList w' = newsList w \<and>
        (\<exists>l sm. el_href el = Some l \<and> scraped E (length (trace w)) = Some sm \<and>
           tempFullIdentifier (el_title el) l \<notin> newsList w' \<and>
           mkFullFormattedMessage (el_title el) sm l \<notin> newsList w' \<and>
           (\<forall>E'. scraped E' (length (trace w')) = Some sm \<longrightarrow>
              (SendMessage (editorsGroupId cfg) (mkLinkOnlyMessage (el_title el) l) (Some ''Markdown'') None,
               returns E' (length (trace w') + 2))
                \<in> set (newEvents w' (snd (processArticle E' cfg el w')))))"
    if "(c, False) \<in> set (newEvents w w')" for c
  proof -
    from that obtain l sm where
      l: "el_href el = Some l" "el_title el \<noteq> []" "l \<noteq> []"
        "tempFullIdentifier (el_title el) l \<notin> newsList w"
      and sm: "scraped E (length (trace w)) = Some sm" "sm \<noteq> []"
        "mkFullFormattedMessage (el_title el) sm l \<notin> newsList w"
      and same: "newsList w' = newsList w"
      unfolding w'
      by (auto simp: processArticle_run newEvents_def Let_def split: option.splits if_splits)
    have again: "(SendMessage (editorsGroupId cfg) (mkLinkOnlyMessage (el_title el) l) (Some ''Markdown'') None,
               returns E' (length (trace w') + 2))
                \<in> set (newEvents w' (snd (processArticle E' cfg el w')))"
      if "scraped E' (length (trace w')) = Some sm" for E'
      using l sm same that
      by (auto simp: processArticle_run newEvents_def Let_def)
    from l sm same again show ?thesis by auto
  qed
  from marked failed r show ?thesis by blast
qed


lemma no_send_no_prompt: "filter isSend evs = [] \<Longrightarrow> filter isDeliveredPrompt evs = []"
proof (induction evs)
  case Nil
  show ?case by simp
next
  case (Cons ev evs)
  obtain c ok where ev: "ev = (c, ok)" by (cases ev)
  from Cons show ?case
    unfolding ev by (cases c) (auto split: if_splits)
qed

lemma dedupStep_refl: "dedupStep f w w"
  by (simp add: dedupStep_def)

lemma dedupStep_trans:
  assumes "dedupStep f w w1" "dedupStep f w1 w2"
  shows "dedupStep f w w2"
proof -
  from assms(1) obtain evs1 where 1: "trace w1 = trace w @ evs1"
    and c1: "if f \<in> newsList w then f \<in> newsList w1 \<and> filter isSend evs1 = []
         else if f \<in> newsList w1 then length (filter isDeliveredPrompt evs1) = 1
         else filter isDeliveredPrompt evs1 = []"
    unfolding dedupStep_def by blast
  from assms(2) obtain evs2 where 2: "trace w2 = trace w1 @ evs2"
    and c2: "if f \<in> newsList w1 then f \<in> newsList w2 \<and> filter isSend evs2 = []
         else if f \<in> newsList w2 then length (filter isDeliveredPrompt evs2) = 1
         else filter isDeliveredPrompt evs2 = []"
    unfolding dedupStep_def by blast
  have tr: "trace w2 = trace w @ (evs1 @ evs2)"
    using 1 2 by simp
  have "if f \<in> newsList w then f \<in> newsList w2 \<and> filter isSend (evs1 @ evs2) = []
         else if f \<in> newsList w2 then length (filter isDeliveredPrompt (evs1 @ evs2)) = 1
         else filter isDeliveredPrompt (evs1 @ evs2) = []"
    using c1 c2 no_send_no_prompt [of evs2]
    by (auto split: if_splits)
  with tr show ?thesis
    unfolding dedupStep_def by blast
qed

lemma link_message_is_no_prompt:
  "mkLinkOnlyMessage t l \<noteq> ''Choose an option for scraped news:''"
  by (simp add: mkLinkOnlyMessage_def)

lemma processArticle_dedupStep:
  assumes same: "\<forall>k sm l. el_href el = Some l \<and> scraped E k = Some sm \<longrightarrow>
                   mkFullFormattedMessage (el_title el) sm l = f"
  shows "dedupStep f w (snd (processArticle E cfg el w))"
proof (cases "el_href el")
  case None
  then show ?thesis by (simp add: processArticle_run dedupStep_def)
next
  case (Some l)
  show ?thesis
  proof (cases "scraped E (length (trace w))")
    case None
    with Some show ?thesis
      by (auto simp: processArticle_run dedupStep_def)
  next
    case (Some sm)
    with \<open>el_href el = Some l\<close> same have f: "mkFullFormattedMessage (el_title el) sm l = f"
      by blast
    from Some \<open>el_href el = Some l\<close> show ?thesis
      unfolding dedupStep_def
      by (auto simp: processArticle_run f Let_def link_message_is_no_prompt)
  qed
qed

lemma scrapeLoop_dedupStep:
  assumes "\<forall>el\<in>set els. \<forall>k sm l. el_href el = Some l \<and> scraped E k = Some sm \<longrightarrow>
             mkFullFormattedMessage (el_title el) sm l = f"
  shows "fst (scrapeLoop E cfg els w) = Inr () \<and> dedupStep f w (snd (scrapeLoop E cfg els w))"
  using assms
proof (induction els arbitrary: w)
  case Nil
  show ?case by (simp add: ret_def dedupStep_refl)
next
  case (Cons el els)
  let ?w1 = "snd (processArticle E cfg el w)"
  have run: "scrapeLoop E cfg (el # els) w = scrapeLoop E cfg els ?w1"
    by (simp add: bindE_def processArticle_run)
  have 1: "dedupStep f w ?w1"
    using Cons.prems by (intro processArticle_dedupStep) auto
  have 2: "fst (scrapeLoop E cfg els ?w1) = Inr () \<and> dedupStep f ?w1 (snd (scrapeLoop E cfg els ?w1))"
    using Cons.prems by (intro Cons.IH) auto
  from 1 2 show ?case
    unfolding run by (auto intro: dedupStep_trans)
qed

lemma runScraper_dedupStep:
  assumes "\<forall>k. \<forall>el\<in>set (snd (httpHome E k)). \<forall>k' sm l. el_href el = Some l \<and> scraped E k' = Some sm \<longrightarrow>
             mkFullFormattedMessage (el_title el) sm l = f"
  shows "fst (runScraper E cfg w) = Inr () \<and> dedupStep f w (snd (runScraper E cfg w))"
proof -
  let ?w1 = "w\<lparr>trace := trace w @ [(HttpGet (homeUrl cfg), True)]\<rparr>"
  have get: "dedupStep f w ?w1" "dedupStep f w (w\<lparr>trace := trace w @ [(HttpGet (homeUrl cfg), False)]\<rparr>)"
    by (simp_all add: dedupStep_def)
  have loop: "fst (scrapeLoop E cfg (snd (httpHome E (length (trace w)))) ?w1) = Inr () \<and>
      dedupStep f ?w1 (snd (scrapeLoop E cfg (snd (httpHome E (length (trace w)))) ?w1))"
    using assms by (intro scrapeLoop_dedupStep) blast
  show ?thesis
  proof (cases "throws E (length (trace w))")
    case (Some e)
    with get show ?thesis
      by (simp add: runScraper_def httpGetHome_def tryCatch_def bindE_def ret_def)
  next
    case None
    obtain status articles where home: "httpHome E (length (trace w)) = (status, articles)"
      by (cases "httpHome E (length (trace w))")
    show ?thesis
    proof (cases "status = 200")
      case False
      with None home get show ?thesis
        by (simp add: runScraper_def httpGetHome_def tryCatch_def bindE_def ret_def)
    next
      case True
      have "runScraper E cfg w = (Inr (), snd (scrapeLoop E cfg articles ?w1))"
        using None home True loop
        by (cases "scrapeLoop E cfg articles ?w1")
          (simp add: runScraper_def httpGetHome_def tryCatch_def bindE_def ret_def)
      with loop home get(1) show ?thesis
        by (auto intro: dedupStep_trans)
    qed
  qed
qed

lemma runCycles_dedupStep:
  assumes "\<forall>k. \<forall>el\<in>set (snd (httpHome E k)). \<forall>k' sm l. el_href el = Some l \<and> scraped E k' = Some sm \<longrightarrow>
             mkFullFormattedMessage (el_title el) sm l = f"
  shows "fst (runCycles E cfg n w) = Inr () \<and> dedupStep f w (snd (runCycles E cfg n w))"
proof (induction n arbitrary: w)
  case 0
  show ?case by (simp add: ret_def dedupStep_refl)
next
  case (Suc n)
  let ?w1 = "snd (runScraper E cfg w)"
  have 1: "fst (runScraper E cfg w) = Inr ()" "dedupStep f w ?w1"
    using runScraper_dedupStep [OF assms, of cfg w] by simp_all
  have run: "runCycles E cfg (Suc n) w = runCycles E cfg n ?w1"
    using 1(1) by (cases "runScraper E cfg w") (simp add: bindE_def)
  from 1(2) Suc.IH [of ?w1] show ?case
    unfolding run by (auto intro: dedupStep_trans)
qed


lemma processArticle_keeps_index:
  "f \<in> newsList w \<Longrightarrow> f \<in> newsList (snd (processArticle E cfg el w))"
  by (auto simp: processArticle_run Let_def split: option.splits)

lemma scrapeLoop_keeps_index:
  "f \<in> newsList w \<Longrightarrow> f \<in> newsList (snd (scrapeLoop E cfg els w))"
proof (induction els arbitrary: w)
  case Nil
  then show ?case by (simp add: ret_def)
next
  case (Cons el els)
  have run: "scrapeLoop E cfg (el # els) w = scrapeLoop E cfg els (snd (processArticle E cfg el w))"
    by (simp add: bindE_def processArticle_run)
  from Cons show ?case
    unfolding run by (intro Cons.IH processArticle_keeps_index)
qed

lemma runScraper_keeps_index:
  assumes "f \<in> newsList w"
  shows "fst (runScraper E cfg w) = Inr () \<and> f \<in> newsList (snd (runScraper E cfg w))"
proof -
  let ?w1 = "w\<lparr>trace := trace w @ [(HttpGet (homeUrl cfg), True)]\<rparr>"
  have loop: "f \<in> newsList (snd (scrapeLoop E cfg els ?w1))" for els
    using assms by (intro scrapeLoop_keeps_index) simp
  show ?thesis
  proof (cases "throws E (length (trace w))")
    case (Some e)
    with assms show ?thesis
      by (simp add: runScraper_def httpGetHome_def tryCatch_def bindE_def ret_def)
  next
    case None
    obtain status articles where home: "httpHome E (length (trace w)) = (status, articles)"
      by (cases "httpHome E (length (trace w))")
    show ?thesis
    proof (cases "status = 200")
      case False
      with None home assms show ?thesis
        by (simp add: runScraper_def httpGetHome_def tryCatch_def bindE_def ret_def)
    next
      case True
      with None home loop [of articles] show ?thesis
        by (cases "scrapeLoop E cfg articles ?w1")
          (auto simp: runScraper_def httpGetHome_def tryCatch_def bindE_def ret_def split: sum.splits)
    qed
  qed
qed

lemma runCycles_keeps_index:
  "f \<in> newsList w \<Longrightarrow> f \<in> newsList (snd (runCycles E cfg n w))"
proof (induction n arbitrary: w)
  case 0
  then show ?case by (simp add: ret_def)
next
  case (Suc n)
  have run: "runCycles E cfg (Suc n) w = runCycles E cfg n (snd (runScraper E cfg w))"
    using runScraper_keeps_index [OF Suc.prems, of E cfg]
    by (cases "runScraper E cfg w") (simp add: bindE_def)
  show ?case
    unfolding run using runScraper_keeps_index [OF Suc.prems, of E cfg] by (intro Suc.IH) simp
qed

lemma processArticle_skips_marked:
  assumes "f \<in> newsList w" "el_href el = Some l" "scraped E (length (trace w)) = Some sm"
    and "mkFullFormattedMessage (el_title el) sm l = f"
  shows "filter isSend (newEvents w (snd (processArticle E cfg el w))) = [] \<and>
         newsList (snd (processArticle E cfg el w)) = newsList w \<and>
         messageStore (snd (processArticle E cfg el w)) = messageStore w"
  using assms by (auto simp: processArticle_run newEvents_def)

text \<open>
  Claim C2 as stated (the item's messages reach the review chat at most once across all
  cycles) fails when the keyboard prompt of the first cycle throws: the fingerprint is
  not added, and the second cycle sends the item's link message a second time.
\<close>

theorem C2_counterexample:
  "trace (snd (runCycles (failing_at 4 (HttpError ''down'')) cfg0 2 world0)) =
     [(HttpGet (homeUrl cfg0), True),
      (ScrapeArticleContent ''http://x/a'', True),
      (Uuidv4, True),
      (SendMessage (- 1001) (mkLinkOnlyMessage ''A'' ''http://x/a'') (Some ''Markdown'') None, True),
      (SendMessage (- 1001) ''Choose an option for scraped news:'' None
         (Some (createMainKeyboard ''00000000-0000-4000-8000-000000000000'')), False),
      (Sleep 2000, True),
      (HttpGet (homeUrl cfg0), True),
      (ScrapeArticleContent ''http://x/a'', True),
      (Uuidv4, True),
      (SendMessage (- 1001) (mkLinkOnlyMessage ''A'' ''http://x/a'') (Some ''Markdown'') None, True),
      (SendMessage (- 1001) ''Choose an option for scraped news:'' None
         (Some (createMainKeyboard ''00000000-0000-4000-8000-000000000000'')), True),
      (Sleep 2000, True)]"
  by (simp add: numeral_2_eq_2 runScraper_def httpGetHome_def tryCatch_def bindE_def ret_def
        processArticle_run scenario_defs Let_def returns_def tempFullIdentifier_def
        mkFullFormattedMessage_def)

text \<open>
  Claim C2, amended, for scrape cycles that run one after another. A fingerprint that is
  in the index stays in it through any number of cycles; an article whose full text has a fingerprint that is in the index is skipped
  with no message sent and no change to the index or the context store; and when every
  item the cycles produce has the same full-text fingerprint \<open>f\<close>, the item is delivered
  completely (its keyboard prompt, which follows its link message, is sent successfully)
  at most once over all cycles, and nothing at all is sent when \<open>f\<close> was in the index
  from the start.
\<close>

theorem C2_skipped_once_marked:
  "(f \<in> newsList w \<longrightarrow> f \<in> newsList (snd (runCycles E cfg n w))) \<and>
   (\<forall>el l sm. f \<in> newsList w \<and> el_href el = Some l \<and> scraped E (length (trace w)) = Some sm \<and>
       mkFullFormattedMessage (el_title el) sm l = f \<longrightarrow>
       filter isSend (newEvents w (snd (processArticle E cfg el w))) = [] \<and>
       newsList (snd (processArticle E cfg el w)) = newsList w \<and>
       messageStore (snd (processArticle E cfg el w)) = messageStore w) \<and>
   ((\<forall>k. \<forall>el\<in>set (snd (httpHome E k)). \<forall>k' sm l.
        el_href el = Some l \<and> scraped E k' = Some sm \<longrightarrow> mkFullFormattedMessage (el_title el) sm l = f) \<longrightarrow>
      length (filter isDeliveredPrompt (newEvents w (snd (runCycles E cfg n w)))) \<le> 1 \<and>
      (f \<in> newsList w \<longrightarrow> filter isSend (newEvents w (snd (runCycles E cfg n w))) = []))"
proof -
  have cycles: "length (filter isDeliveredPrompt (newEvents w (snd (runCycles E cfg n w)))) \<le> 1 \<and>
      (f \<in> newsList w \<longrightarrow> filter isSend (newEvents w (snd (runCycles E cfg n w))) = [])"
    if same: "\<forall>k. \<forall>el\<in>set (snd (httpHome E k)). \<forall>k' sm l.
        el_href el = Some l \<and> scraped E k' = Some sm \<longrightarrow> mkFullFormattedMessage (el_title el) sm l = f"
  proof -
    from runCycles_dedupStep [OF same, of cfg n w]
    obtain evs where tr: "trace (snd (runCycles E cfg n w)) = trace w @ evs"
      and c: "if f \<in> newsList w then f \<in> newsList (snd (runCycles E cfg n w)) \<and> filter isSend evs = []
         else if f \<in> newsList (snd (runCycles E cfg n w)) then length (filter isDeliveredPrompt evs) = 1
         else filter isDeliveredPrompt evs = []"
      unfolding dedupStep_def by blast
    have ev: "newEvents w (snd (runCycles E cfg n w)) = evs"
      using tr by (simp add: newEvents_def)
    from c no_send_no_prompt [of evs] show ?thesis
      unfolding ev by (auto split: if_splits)
  qed
  from cycles runCycles_keeps_index [of f w E cfg n] processArticle_skips_marked [of f w _ _ E _ cfg]
  show ?thesis by blast
qed


lemmas cycle_defs = runScraper_def httpGetHome_def tryCatch_def bindE_def ret_def processArticle_run
  Let_def returns_def tempFullIdentifier_def mkFullFormattedMessage_def

text \<open>Claim C2, amended, at two cycles that serve the same article, and at two further cycles after it was marked.\<close>

theorem C2_skipped_once_marked_witness:
  "length (filter isDeliveredPrompt (newEvents world0 (snd (runCycles calm cfg0 2 world0)))) \<le> 1 \<and>
   mkFullFormattedMessage ''A'' ''Central banks test tokenised deposits.'' ''http://x/a''
     \<in> newsList (snd (runCycles calm cfg0 2 (snd (runCycles calm cfg0 1 world0)))) \<and>
   filter isSend (newEvents (snd (runCycles calm cfg0 1 world0))
     (snd (runCycles calm cfg0 2 (snd (runCycles calm cfg0 1 world0))))) = []"
proof -
  let ?f = "mkFullFormattedMessage ''A'' ''Central banks test tokenised deposits.'' ''http://x/a''"
  let ?w1 = "snd (runCycles calm cfg0 1 world0)"
  have same: "\<forall>k. \<forall>el\<in>set (snd (httpHome calm k)). \<forall>k' sm l.
        el_href el = Some l \<and> scraped calm k' = Some sm \<longrightarrow> mkFullFormattedMessage (el_title el) sm l = ?f"
    by (simp add: calm_def)
  have marked: "?f \<in> newsList ?w1"
    by (simp add: cycle_defs scenario_defs)
  from C2_skipped_once_marked [of ?f world0 calm cfg0 2] same
  have 1: "length (filter isDeliveredPrompt (newEvents world0 (snd (runCycles calm cfg0 2 world0)))) \<le> 1"
    by blast
  from C2_skipped_once_marked [of ?f ?w1 calm cfg0 2] same marked
  have 2: "?f \<in> newsList (snd (runCycles calm cfg0 2 ?w1))"
    and 3: "filter isSend (newEvents ?w1 (snd (runCycles calm cfg0 2 ?w1))) = []"
    by blast+
  from 1 2 3 show ?thesis by simp
qed

text \<open>Claim C4 at an article whose link message the transport rejects, and at one it accepts.\<close>

theorem C4_marked_only_after_delivery_witness:
  "newsList (snd (processArticle (failing_at 2 (HttpError ''down'')) cfg0 article0 world0)) = {} \<and>
   newsList (snd (processArticle calm cfg0 article0 world0)) =
     {mkFullFormattedMessage ''A'' ''Central banks test tokenised deposits.'' ''http://x/a''}"
proof -
  let ?E = "failing_at 2 (HttpError ''down'')"
  have failed: "(SendMessage (- 1001) (mkLinkOnlyMessage ''A'' ''http://x/a'') (Some ''Markdown'') None, False)
      \<in> set (newEvents world0 (snd (processArticle ?E cfg0 article0 world0)))"
    by (simp add: cycle_defs scenario_defs article0_def newEvents_def)
  have 1: "newsList (snd (processArticle ?E cfg0 article0 world0)) = {}"
    using C4_marked_only_after_delivery [of ?E cfg0 article0 world0
        "fst (processArticle ?E cfg0 article0 world0)" "snd (processArticle ?E cfg0 article0 world0)"]
      failed
    by (auto simp: world0_def)
  have changed: "newsList (snd (processArticle calm cfg0 article0 world0)) \<noteq> newsList world0"
    by (simp add: cycle_defs scenario_defs article0_def)
  have 2: "newsList (snd (processArticle calm cfg0 article0 world0)) =
     {mkFullFormattedMessage ''A'' ''Central banks test tokenised deposits.'' ''http://x/a''}"
    using C4_marked_only_after_delivery [of calm cfg0 article0 world0
        "fst (processArticle calm cfg0 article0 world0)" "snd (processArticle calm cfg0 article0 world0)"]
      changed
    by (auto simp: world0_def article0_def calm_def)
  from 1 2 show ?thesis by simp
qed

text \<open>
  The identifier of the pre-check (title and link) is never the full text of the same
  article, which is the only thing \<open>addSentNews\<close> puts into the index: marking an article
  does not make its own pre-check succeed.
\<close>

lemma precheck_misses_own_fingerprint:
  "tempFullIdentifier t l \<noteq> mkFullFormattedMessage t s l"
  by (simp add: tempFullIdentifier_def mkFullFormattedMessage_def)

lemma precheck_after_delivery:
  "tempFullIdentifier t l \<in> insert (mkFullFormattedMessage t s l) N \<longleftrightarrow> tempFullIdentifier t l \<in> N"
  using precheck_misses_own_fingerprint [of t l s] by auto

text \<open>
  Claim C8 (a later cycle skips an article that was delivered and marked at the cheap
  pre-check, before its content is fetched) does not hold of the code: after a first
  cycle that delivered the article and put its full text into the index, a second cycle
  over the same title and link passes the pre-check of lines 113 to 124, fetches the
  content again, and skips the article only at the check on the full text.
\<close>

theorem C8_seen_article_is_fetched_again:
  "newsList (snd (runCycles calm cfg0 1 world0)) = {mkFullFormattedMessage ''A'' ''Central banks test tokenised deposits.'' ''http://x/a''} \<and>
   newEvents (snd (runCycles calm cfg0 1 world0))
     (snd (runCycles calm cfg0 1 (snd (runCycles calm cfg0 1 world0)))) =
     [(HttpGet (homeUrl cfg0), True), (ScrapeArticleContent ''http://x/a'', True)]"
  by (simp add: cycle_defs scenario_defs newEvents_def)

end
